theory Spec2Isabelle
  imports Complex_Main "HOL-Library.Multiset"
begin

section \<open>Data model\<close>

text \<open>
  The four bots under \<open>src/bots\<close> (\<open>my_bot.py\<close>, \<open>aaron_bot.py\<close>, \<open>mastermind_bot.py\<close>,
  \<open>tft_bot.py\<close>) are parallel implementations of one decision engine. Each function below
  is the translation of one Python method and keeps its name, prefixed by the bot it comes
  from. Python floats are read as exact real numbers; Python integers as \<open>int\<close>. The chat
  side channel \<open>view.say\<close> carries no state and is left out.
\<close>

subsection \<open>Card type constants\<close>

definition STF :: string where "STF = ''SeeTheFutureCard''"
definition SKIP :: string where "SKIP = ''SkipCard''"
definition ATTACK :: string where "ATTACK = ''AttackCard''"
definition SHUFFLE :: string where "SHUFFLE = ''ShuffleCard''"
definition FAVOR :: string where "FAVOR = ''FavorCard''"
definition NOPE :: string where "NOPE = ''NopeCard''"
definition DEFUSE :: string where "DEFUSE = ''DefuseCard''"
definition EXPLODING :: string where "EXPLODING = ''ExplodingKittenCard''"

lemmas card_consts = STF_def SKIP_def ATTACK_def SHUFFLE_def FAVOR_def NOPE_def DEFUSE_def
  EXPLODING_def

subsection \<open>Cards and the view\<close>

text \<open>
  Modelled from the spec: \<open>Card\<close> (\<open>game.cards.base\<close>) is engine code outside \<open>src/\<close>. The
  bots read its \<open>card_type\<close> attribute and call \<open>can_combo()\<close>; the spec gives a card as
  \<open>{type, comboEligible}\<close>.
\<close>

record card =
  card_type :: string
  can_combo :: bool

text \<open>
  Modelled from the spec: \<open>BotView\<close> (\<open>game.bots.view\<close>) is engine code outside \<open>src/\<close>. The
  fields are the attributes the bots read, as the spec's View lists them: draw-pile count,
  discard sequence (last element is the top), turn order, the hand, remaining turns, the
  living opponents and their visible card counts (a dictionary, read with a default).
\<close>

record view =
  my_id :: string
  my_hand :: "card list"
  draw_pile_count :: int
  discard_pile :: "card list"
  turn_order :: "string list"
  my_turns_remaining :: int
  other_players :: "string list"
  other_player_card_counts :: "string \<rightharpoonup> int"

text \<open>
  Modelled from the spec: the accessors of \<open>BotView\<close> the bots call. \<open>get_cards_of_type\<close>
  selects the cards of one type from the hand, in hand order; \<open>count_cards_of_type\<close>
  counts them; \<open>has_card_type\<close> tests for one.
\<close>

definition get_cards_of_type :: "view \<Rightarrow> string \<Rightarrow> card list" where
  "get_cards_of_type v t = filter (\<lambda>c. card_type c = t) (my_hand v)"

definition count_cards_of_type :: "view \<Rightarrow> string \<Rightarrow> int" where
  "count_cards_of_type v t = int (length (get_cards_of_type v t))"

definition has_card_type :: "view \<Rightarrow> string \<Rightarrow> bool" where
  "has_card_type v t = (get_cards_of_type v t \<noteq> [])"

text \<open>\<open>view.other_player_card_counts.get(pid, 0)\<close>.\<close>

definition card_count_of :: "view \<Rightarrow> string \<Rightarrow> int" where
  "card_count_of v pid = (case other_player_card_counts v pid of None \<Rightarrow> 0 | Some n \<Rightarrow> n)"

section \<open>Risk estimator\<close>

subsection \<open>\<open>aaron_bot.py\<close>: the tracked state and \<open>calculate_ek_risk\<close>\<close>

text \<open>
  The attributes set in \<open>MyBot.__init__\<close> of \<open>aaron_bot.py\<close>. A \<open>Counter\<close> of card types is a
  multiset of strings; the \<open>defaultdict\<close> of counters is read with \<open>.get(pid, Counter())\<close>.
\<close>

record aaron_state =
  a_turn_count :: int
  a_initial_player_count :: "int option"
  a_first_ek_seen_from_other :: bool
  a_kittens_removed :: int
  a_known_top_cards :: "string list option"
  a_opponent_card_history :: "string \<rightharpoonup> string list"
  a_opponent_card_counts :: "string \<rightharpoonup> string multiset"
  a_defuses_seen :: int

text \<open>
  \<open>self._initial_player_count or len(view.turn_order)\<close>: Python's \<open>or\<close> takes the right
  operand when the left one is \<open>None\<close> or \<open>0\<close>.
\<close>

definition players_or :: "int option \<Rightarrow> view \<Rightarrow> int" where
  "players_or ipc v =
     (case ipc of
        None \<Rightarrow> int (length (turn_order v))
      | Some n \<Rightarrow> if n = 0 then int (length (turn_order v)) else n)"

text \<open>Truthiness of an optional tuple: \<open>None\<close> and \<open>()\<close> are both false.\<close>

definition truthy :: "'a list option \<Rightarrow> bool" where
  "truthy x = (case x of None \<Rightarrow> False | Some xs \<Rightarrow> xs \<noteq> [])"

text \<open>The known-top-of-deck sequence as a list: \<open>None\<close> reads as no card known.\<close>

definition visible_cards :: "string list option \<Rightarrow> string list" where
  "visible_cards k = (case k of None \<Rightarrow> [] | Some xs \<Rightarrow> xs)"

definition aaron_calculate_ek_risk :: "aaron_state \<Rightarrow> view \<Rightarrow> real" where
  "aaron_calculate_ek_risk s v =
     (let players = players_or (a_initial_player_count s) v;
          baseline_kittens = max 1 (players - 1 - a_kittens_removed s);
          deck_size = max 1 (draw_pile_count v)
      in case a_known_top_cards s of
           Some (c # cs) \<Rightarrow>
             (let visible = c # cs in
              if c = EXPLODING then 1
              else if EXPLODING \<in> set visible then 1 / real (length visible)
              else (let unseen = max 1 (deck_size - int (length visible))
                    in min 1 (real_of_int baseline_kittens / real_of_int unseen)))
         | _ \<Rightarrow>
             (let risk = min 1 (real_of_int baseline_kittens / real_of_int deck_size);
                  defuses = count_cards_of_type v DEFUSE
              in if defuses > 0 then risk * (6 / 10) else risk))"

subsection \<open>\<open>mastermind_bot.py\<close>: the tracked state and \<open>_calculate_ek_risk\<close>\<close>

record mastermind_state =
  m_turn_count :: int
  m_initial_player_count :: "int option"
  m_first_ek_seen :: bool
  m_kittens_removed :: int
  m_defuses_used :: int
  m_known_top_cards :: "string list option"
  m_deck_shuffled :: bool
  m_last_shuffle_turn :: int
  m_opponent_card_history :: "string \<rightharpoonup> string list"
  m_opponent_card_counts :: "string \<rightharpoonup> string multiset"
  m_opponent_defense_prob :: "string \<rightharpoonup> real"
  m_opponent_nope_prob :: "string \<rightharpoonup> real"
  m_opponent_defuses_used :: "string \<rightharpoonup> bool"
  m_opponent_last_seen_hand_size :: "string \<rightharpoonup> int"
  m_game_phase :: string
  m_my_defuses :: int
  m_just_peeked :: bool
  m_stf_planning_turns :: int

text \<open>\<open>visible.index(EXPLODING)\<close>, called only when the card is in the tuple.\<close>

fun index_of :: "'a \<Rightarrow> 'a list \<Rightarrow> nat" where
  "index_of x [] = 0"
| "index_of x (y # ys) = (if x = y then 0 else Suc (index_of x ys))"

text \<open>The cushion factor \<open>max(0.3, 1.0 - (defuses * 0.25))\<close>.\<close>

definition mastermind_cushion :: "int \<Rightarrow> real" where
  "mastermind_cushion defuses = max (3 / 10) (1 - real_of_int defuses * (25 / 100))"

definition mastermind_calculate_ek_risk :: "mastermind_state \<Rightarrow> view \<Rightarrow> real" where
  "mastermind_calculate_ek_risk s v =
     (if draw_pile_count v = 0 then 0
      else
        let players = players_or (m_initial_player_count s) v;
            baseline_kittens = max 1 (players - 1 - m_kittens_removed s);
            defuses = count_cards_of_type v DEFUSE;
            cushioned = (\<lambda>risk. if defuses > 0 then risk * mastermind_cushion defuses else risk)
        in case m_known_top_cards s of
             Some (c # cs) \<Rightarrow>
               (let visible = c # cs in
                if c = EXPLODING then 1
                else if EXPLODING \<in> set visible then
                  (let ek_position = index_of EXPLODING visible in
                   if ek_position = 0 then 1
                   else if ek_position = 1 then 5 / 10
                   else 33 / 100)
                else (let unseen = max 1 (draw_pile_count v - int (length visible))
                      in cushioned (min 1 (real_of_int baseline_kittens / real_of_int unseen))))
           | _ \<Rightarrow>
               cushioned (min 1 (real_of_int baseline_kittens / real_of_int (draw_pile_count v))))"

section \<open>Knowledge tracker\<close>

subsection \<open>Events\<close>

text \<open>
  Modelled from the spec: \<open>EventType\<close> and \<open>GameEvent\<close> (\<open>game.history\<close>) are engine code
  outside \<open>src/\<close>. The constructors are the members the bots name; \<open>OTHER_EVENT\<close> stands for
  any member they never test for. An event carries its kind, the acting player (possibly
  \<open>None\<close>) and a payload dictionary, of which the bots read the keys \<open>card_types\<close>,
  \<open>card_type\<close>, \<open>target_player_id\<close> and \<open>target\<close>; a missing key is \<open>None\<close> here.
\<close>

datatype EventType =
    BOT_CHAT | CARDS_PEEKED | DECK_SHUFFLED | EXPLODING_KITTEN_INSERTED | CARD_DRAWN
  | EXPLODING_KITTEN_DRAWN | PLAYER_ELIMINATED | CARD_PLAYED | COMBO_PLAYED | DEFUSE_USED
  | FAVOR_REQUESTED | GAME_START | OTHER_EVENT

record game_event =
  event_type :: EventType
  player_id :: "string option"
  data_card_types :: "string list option"
  data_card_type :: "string option"
  data_target_player_id :: "string option"
  data_target :: "string option"

text \<open>\<open>event.data.get("card_types", ())\<close> and \<open>event.data.get("card_type", "")\<close>.\<close>

definition get_card_types :: "game_event \<Rightarrow> string list" where
  "get_card_types e = (case data_card_types e of None \<Rightarrow> [] | Some ts \<Rightarrow> ts)"

definition get_card_type :: "game_event \<Rightarrow> string" where
  "get_card_type e = (case data_card_type e of None \<Rightarrow> [] | Some t \<Rightarrow> t)"

text \<open>Truthiness of an optional player id: \<open>None\<close> and the empty string are false.\<close>

definition id_truthy :: "string option \<Rightarrow> bool" where
  "id_truthy p = (case p of None \<Rightarrow> False | Some x \<Rightarrow> x \<noteq> [])"

text \<open>
  \<open>history.setdefault(pid, []).append(card_type)\<close>; the counter of a player in a
  \<open>defaultdict(Counter)\<close>, empty when the player has none (\<open>counts.get(pid, Counter())\<close>);
  and \<open>counts[pid][card_type] += 1\<close>.
\<close>

definition history_append :: "(string \<rightharpoonup> string list) \<Rightarrow> string \<Rightarrow> string \<Rightarrow> (string \<rightharpoonup> string list)" where
  "history_append h pid t = h(pid \<mapsto> (case h pid of None \<Rightarrow> [] | Some ts \<Rightarrow> ts) @ [t])"

definition counter_of :: "(string \<rightharpoonup> string multiset) \<Rightarrow> string \<Rightarrow> string multiset" where
  "counter_of c pid = (case c pid of None \<Rightarrow> {#} | Some m \<Rightarrow> m)"

definition counts_incr :: "(string \<rightharpoonup> string multiset) \<Rightarrow> string \<Rightarrow> string \<Rightarrow> (string \<rightharpoonup> string multiset)" where
  "counts_incr c pid t = c(pid \<mapsto> add_mset t (counter_of c pid))"

subsection \<open>\<open>aaron_bot.py\<close>: \<open>on_event\<close>\<close>

text \<open>
  The method is a chain of independent \<open>if\<close> statements after the chat guard; each
  \<open>aaron_on_*\<close> function below is one of them, and \<open>aaron_on_event\<close> runs them in the
  source's order.
\<close>

definition aaron_on_peeked :: "game_event \<Rightarrow> view \<Rightarrow> aaron_state \<Rightarrow> aaron_state" where
  "aaron_on_peeked e v s =
     (if event_type e = CARDS_PEEKED \<and> player_id e = Some (my_id v)
      then s\<lparr>a_known_top_cards := Some (get_card_types e)\<rparr> else s)"

definition aaron_on_shuffled :: "game_event \<Rightarrow> aaron_state \<Rightarrow> aaron_state" where
  "aaron_on_shuffled e s =
     (if event_type e = DECK_SHUFFLED \<or> event_type e = EXPLODING_KITTEN_INSERTED
      then s\<lparr>a_known_top_cards := None\<rparr> else s)"

definition aaron_on_drawn :: "game_event \<Rightarrow> aaron_state \<Rightarrow> aaron_state" where
  "aaron_on_drawn e s =
     (if event_type e = CARD_DRAWN \<and> truthy (a_known_top_cards s)
      then s\<lparr>a_known_top_cards := Some (tl (visible_cards (a_known_top_cards s)))\<rparr> else s)"

definition aaron_on_ek_drawn :: "game_event \<Rightarrow> view \<Rightarrow> aaron_state \<Rightarrow> aaron_state" where
  "aaron_on_ek_drawn e v s =
     (if event_type e = EXPLODING_KITTEN_DRAWN \<and> player_id e \<noteq> Some (my_id v)
      then s\<lparr>a_first_ek_seen_from_other := True\<rparr> else s)"

definition aaron_on_eliminated :: "game_event \<Rightarrow> aaron_state \<Rightarrow> aaron_state" where
  "aaron_on_eliminated e s =
     (if event_type e = PLAYER_ELIMINATED
      then s\<lparr>a_kittens_removed := max 0 (a_kittens_removed s + 1)\<rparr> else s)"

definition aaron_on_played :: "game_event \<Rightarrow> view \<Rightarrow> aaron_state \<Rightarrow> aaron_state" where
  "aaron_on_played e v s =
     (if event_type e = CARD_PLAYED then
        let card_type = get_card_type e;
            s1 = (case player_id e of
                    Some pid \<Rightarrow>
                      if pid \<noteq> [] \<and> pid \<noteq> my_id v \<and> pid \<in> set (other_players v)
                      then s\<lparr>a_opponent_card_history :=
                                history_append (a_opponent_card_history s) pid card_type,
                             a_opponent_card_counts :=
                                counts_incr (a_opponent_card_counts s) pid card_type\<rparr>
                      else s
                  | None \<Rightarrow> s)
        in if card_type = DEFUSE then s1\<lparr>a_defuses_seen := a_defuses_seen s1 + 1\<rparr> else s1
      else s)"

definition aaron_on_event :: "game_event \<Rightarrow> view \<Rightarrow> aaron_state \<Rightarrow> aaron_state" where
  "aaron_on_event e v s =
     (if event_type e = BOT_CHAT then s
      else aaron_on_played e v (aaron_on_eliminated e (aaron_on_ek_drawn e v
             (aaron_on_drawn e (aaron_on_shuffled e (aaron_on_peeked e v s))))))"

subsection \<open>\<open>mastermind_bot.py\<close>: \<open>_update_opponent_model\<close> and \<open>on_event\<close>\<close>

text \<open>
  \<open>_update_opponent_model\<close> reads \<open>self._opponent_card_counts[player_id]\<close>, which on a
  \<open>defaultdict\<close> stores an empty counter for a player not seen before. With no observed
  play it returns at once; otherwise it stores both probabilities.
\<close>

definition mastermind_update_opponent_model :: "string \<Rightarrow> mastermind_state \<Rightarrow> mastermind_state" where
  "mastermind_update_opponent_model pid s =
     (let history = counter_of (m_opponent_card_counts s) pid;
          s0 = s\<lparr>m_opponent_card_counts := (m_opponent_card_counts s)(pid \<mapsto> history)\<rparr>;
          total = int (size history)
      in if total = 0 then s0
         else
           let defensive_cards = int (count history SKIP) + int (count history ATTACK)
                 + int (count history SHUFFLE) + int (count history DEFUSE);
               nope_count = int (count history NOPE)
           in s0\<lparr>m_opponent_defense_prob := (m_opponent_defense_prob s0)
                     (pid \<mapsto> min (9 / 10) (real_of_int defensive_cards / real_of_int (max 1 total))),
                  m_opponent_nope_prob := (m_opponent_nope_prob s0)
                     (pid \<mapsto> min (8 / 10) (real_of_int nope_count / real_of_int (max 1 total)))\<rparr>)"

definition mastermind_on_peeked :: "game_event \<Rightarrow> view \<Rightarrow> mastermind_state \<Rightarrow> mastermind_state" where
  "mastermind_on_peeked e v s =
     (if event_type e = CARDS_PEEKED \<and> player_id e = Some (my_id v)
      then s\<lparr>m_known_top_cards := Some (get_card_types e), m_just_peeked := True\<rparr> else s)"

definition mastermind_on_shuffled :: "game_event \<Rightarrow> mastermind_state \<Rightarrow> mastermind_state" where
  "mastermind_on_shuffled e s =
     (if event_type e = DECK_SHUFFLED \<or> event_type e = EXPLODING_KITTEN_INSERTED
      then s\<lparr>m_known_top_cards := None, m_deck_shuffled := True\<rparr> else s)"

definition mastermind_on_drawn :: "game_event \<Rightarrow> mastermind_state \<Rightarrow> mastermind_state" where
  "mastermind_on_drawn e s =
     (if event_type e = CARD_DRAWN \<and> truthy (m_known_top_cards s)
      then s\<lparr>m_known_top_cards :=
                (if length (visible_cards (m_known_top_cards s)) > 1
                 then Some (tl (visible_cards (m_known_top_cards s))) else None),
             m_just_peeked := False\<rparr>
      else s)"

definition mastermind_on_ek_drawn :: "game_event \<Rightarrow> mastermind_state \<Rightarrow> mastermind_state" where
  "mastermind_on_ek_drawn e s =
     (if event_type e = EXPLODING_KITTEN_DRAWN \<and> \<not> m_first_ek_seen s
      then s\<lparr>m_first_ek_seen := True, m_deck_shuffled := False\<rparr> else s)"

definition mastermind_on_eliminated :: "game_event \<Rightarrow> mastermind_state \<Rightarrow> mastermind_state" where
  "mastermind_on_eliminated e s =
     (if event_type e = PLAYER_ELIMINATED
      then s\<lparr>m_kittens_removed := m_kittens_removed s + 1, m_deck_shuffled := True\<rparr> else s)"

definition mastermind_on_played :: "game_event \<Rightarrow> view \<Rightarrow> mastermind_state \<Rightarrow> mastermind_state" where
  "mastermind_on_played e v s =
     (if event_type e = CARD_PLAYED then
        (case player_id e of
           Some pid \<Rightarrow>
             if pid \<noteq> [] \<and> pid \<noteq> my_id v \<and> pid \<in> set (other_players v)
             then mastermind_update_opponent_model pid
                    (s\<lparr>m_opponent_card_history :=
                          history_append (m_opponent_card_history s) pid (get_card_type e),
                       m_opponent_card_counts :=
                          counts_incr (m_opponent_card_counts s) pid (get_card_type e)\<rparr>)
             else s
         | None \<Rightarrow> s)
      else s)"

definition mastermind_on_defuse_used :: "game_event \<Rightarrow> view \<Rightarrow> mastermind_state \<Rightarrow> mastermind_state" where
  "mastermind_on_defuse_used e v s =
     (if event_type e = DEFUSE_USED then
        (case player_id e of
           Some pid \<Rightarrow>
             if pid \<noteq> [] then
               let s1 = s\<lparr>m_opponent_defuses_used := (m_opponent_defuses_used s)(pid \<mapsto> True)\<rparr>
               in if pid = my_id v then s1\<lparr>m_defuses_used := m_defuses_used s1 + 1\<rparr> else s1
             else s
         | None \<Rightarrow> s)
      else s)"

definition mastermind_on_hand_size :: "game_event \<Rightarrow> view \<Rightarrow> mastermind_state \<Rightarrow> mastermind_state" where
  "mastermind_on_hand_size e v s =
     (if event_type e = CARD_PLAYED \<or> event_type e = CARD_DRAWN then
        (case player_id e of
           Some pid \<Rightarrow>
             if pid \<noteq> [] \<and> pid \<in> set (other_players v) then
               let card_count = card_count_of v pid
               in if card_count > 0
                  then s\<lparr>m_opponent_last_seen_hand_size :=
                            (m_opponent_last_seen_hand_size s)(pid \<mapsto> card_count)\<rparr>
                  else s
             else s
         | None \<Rightarrow> s)
      else s)"

definition mastermind_on_event :: "game_event \<Rightarrow> view \<Rightarrow> mastermind_state \<Rightarrow> mastermind_state" where
  "mastermind_on_event e v s =
     (if event_type e = BOT_CHAT then s
      else mastermind_on_hand_size e v (mastermind_on_defuse_used e v (mastermind_on_played e v
             (mastermind_on_eliminated e (mastermind_on_ek_drawn e (mastermind_on_drawn e
               (mastermind_on_shuffled e (mastermind_on_peeked e v s))))))))"

subsection \<open>\<open>tft_bot.py\<close>: the tracked state, \<open>_calculate_ek_probability\<close> and \<open>on_event\<close>\<close>

text \<open>
  The state attributes of \<open>TFTBot.__init__\<close>; the phrase lists only feed the chat. The
  calls of \<open>random.random()\<close> in \<open>on_event\<close> decide about chat lines only.
\<close>

record tft_state =
  t_first_ek_drawn :: bool
  t_deck_shuffled :: bool
  t_num_players :: int
  t_num_eks_remaining :: int
  t_opponent_card_history :: "string \<rightharpoonup> string list"
  t_last_stf_step :: int
  t_just_shuffled :: bool
  t_last_peeked_cards :: "string list"
  t_ek_on_top :: bool

definition tft_calculate_ek_probability :: "tft_state \<Rightarrow> view \<Rightarrow> real" where
  "tft_calculate_ek_probability s v =
     (if draw_pile_count v = 0 then 0
      else
        let alive_players = int (length (other_players v)) + 1;
            estimated_eks =
              (if t_num_players s > 0
               then (let eliminations = t_num_players s - alive_players
                     in max 1 ((t_num_players s - 1) - eliminations))
               else max 1 (alive_players - 1))
        in real_of_int estimated_eks / real_of_int (draw_pile_count v))"

definition tft_on_ek_drawn :: "game_event \<Rightarrow> tft_state \<Rightarrow> tft_state" where
  "tft_on_ek_drawn e s =
     (if event_type e = EXPLODING_KITTEN_DRAWN \<and> \<not> t_first_ek_drawn s
      then s\<lparr>t_first_ek_drawn := True, t_deck_shuffled := False\<rparr> else s)"

definition tft_on_shuffled :: "game_event \<Rightarrow> tft_state \<Rightarrow> tft_state" where
  "tft_on_shuffled e s =
     (if event_type e = DECK_SHUFFLED
      then s\<lparr>t_deck_shuffled := True, t_ek_on_top := False\<rparr> else s)"

definition tft_on_peeked :: "game_event \<Rightarrow> view \<Rightarrow> tft_state \<Rightarrow> tft_state" where
  "tft_on_peeked e v s =
     (if event_type e = CARDS_PEEKED \<and> player_id e = Some (my_id v) then
        let card_types = get_card_types e;
            s1 = s\<lparr>t_last_peeked_cards := card_types\<rparr>
        in (case card_types of
              [] \<Rightarrow> s1
            | c # cs \<Rightarrow>
                if ''ExplodingKittenCard'' \<in> set card_types then
                  (if c = ''ExplodingKittenCard'' then s1\<lparr>t_ek_on_top := True\<rparr>
                   else (let current_ek_prob = tft_calculate_ek_probability s1 v
                         in if current_ek_prob \<ge> 40 / 100 then s1\<lparr>t_ek_on_top := True\<rparr>
                            else s1))
                else s1)
      else s)"

definition tft_on_eliminated :: "game_event \<Rightarrow> tft_state \<Rightarrow> tft_state" where
  "tft_on_eliminated e s =
     (if event_type e = PLAYER_ELIMINATED then s\<lparr>t_deck_shuffled := True\<rparr> else s)"

definition tft_on_played :: "game_event \<Rightarrow> view \<Rightarrow> tft_state \<Rightarrow> tft_state" where
  "tft_on_played e v s =
     (if event_type e = CARD_PLAYED then
        (case player_id e of
           Some pid \<Rightarrow>
             if pid \<noteq> my_id v \<and> pid \<in> set (other_players v)
             then s\<lparr>t_opponent_card_history :=
                       history_append (t_opponent_card_history s) pid (get_card_type e)\<rparr>
             else s
         | None \<Rightarrow> s)
      else s)"

definition tft_on_game_start :: "game_event \<Rightarrow> view \<Rightarrow> tft_state \<Rightarrow> tft_state" where
  "tft_on_game_start e v s =
     (if event_type e = GAME_START then
        let n = int (length (other_players v)) + 1
        in s\<lparr>t_num_players := n, t_num_eks_remaining := n - 1\<rparr>
      else s)"

definition tft_on_event :: "game_event \<Rightarrow> view \<Rightarrow> tft_state \<Rightarrow> tft_state" where
  "tft_on_event e v s =
     (if event_type e = BOT_CHAT then s
      else tft_on_game_start e v (tft_on_played e v (tft_on_eliminated e
             (tft_on_peeked e v (tft_on_shuffled e (tft_on_ek_drawn e s))))))"

section \<open>Opponent model\<close>

subsection \<open>\<open>aaron_bot.py\<close>: \<open>simulate_opponent\<close>\<close>

text \<open>The returned dictionary \<open>{"defensive": d, "nope": n}\<close> is the pair \<open>(d, n)\<close>.\<close>

definition aaron_simulate_opponent :: "aaron_state \<Rightarrow> string \<Rightarrow> real \<times> real" where
  "aaron_simulate_opponent s player_id' =
     (let history = counter_of (a_opponent_card_counts s) player_id';
          total_seen = int (size history)
      in if total_seen = 0 then (3 / 10, 2 / 10)
         else
           let defensive_cards = int (count history SKIP) + int (count history ATTACK)
                 + int (count history SHUFFLE);
               nope_cards = int (count history NOPE);
               defensive_prob =
                 min (8 / 10) (real_of_int defensive_cards / real_of_int (max 1 total_seen));
               nope_prob = min (7 / 10) (real_of_int nope_cards / real_of_int (max 1 total_seen))
           in (defensive_prob, nope_prob))"

section \<open>Reaction evaluator\<close>

text \<open>
  Modelled from the spec: the \<open>Action\<close> classes (\<open>game.bots.base\<close>) are engine code outside
  \<open>src/\<close>: a draw, a single card with an optional target, a combo with an optional target.
\<close>

datatype action =
    DrawCardAction
  | PlayCardAction card "string option"
  | PlayComboAction "card list" "string option"

text \<open>
  Both \<open>react\<close> methods call \<open>random.random()\<close> on their last path. The value it would
  return, a float in \<open>[0, 1)\<close>, is the argument \<open>rnd\<close>.
\<close>

definition my_bot_react :: "real \<Rightarrow> view \<Rightarrow> game_event \<Rightarrow> action option" where
  "my_bot_react rnd v e =
     (case get_cards_of_type v ''NopeCard'' of
        [] \<Rightarrow> None
      | n # ns \<Rightarrow>
          let nope_cards = n # ns;
              target_id = data_target_player_id e
          in if event_type e = CARD_PLAYED \<and> get_card_type e = ''AttackCard''
                  \<and> target_id = Some (my_id v)
             then Some (PlayCardAction n None)
             else if event_type e = CARD_PLAYED \<and> get_card_type e = ''FavorCard''
                  \<and> target_id = Some (my_id v)
             then Some (PlayCardAction n None)
             else if length nope_cards > 1 \<and> rnd < 3 / 10
             then Some (PlayCardAction n None)
             else None)"

definition aaron_react :: "real \<Rightarrow> view \<Rightarrow> game_event \<Rightarrow> action option" where
  "aaron_react rnd v e =
     (case get_cards_of_type v NOPE of
        [] \<Rightarrow> None
      | n # ns \<Rightarrow>
          let nope_cards = n # ns;
              target_id = data_target_player_id e
          in if event_type e = CARD_PLAYED \<and> get_card_type e = ATTACK
                  \<and> target_id = Some (my_id v)
             then Some (PlayCardAction n None)
             else if event_type e = CARD_PLAYED \<and> get_card_type e = FAVOR
                  \<and> target_id = Some (my_id v)
             then Some (PlayCardAction n None)
             else if event_type e = FAVOR_REQUESTED \<and> data_target e = Some (my_id v)
             then Some (PlayCardAction n None)
             else if length nope_cards > 1 \<and> rnd < 1 / 10
             then Some (PlayCardAction n None)
             else None)"

section \<open>Disposal policy: \<open>choose_defuse_position\<close>\<close>

text \<open>
  \<open>random.randint(a, b)\<close> returns some integer \<open>N\<close> with \<open>a \<le> N \<le> b\<close> and raises
  \<open>ValueError\<close> on an empty range. It is modelled by the set of its possible results, the
  empty set standing for the error; a method that calls it returns the set of indices it
  may return.
\<close>

definition randint :: "int \<Rightarrow> int \<Rightarrow> int set" where
  "randint a b = {a..b}"

definition my_bot_choose_defuse_position :: "int \<Rightarrow> int" where
  "my_bot_choose_defuse_position draw_pile_size =
     (if draw_pile_size > 4 then max 1 (draw_pile_size div 4)
      else max 1 (draw_pile_size - 1))"

definition aaron_choose_defuse_position :: "int \<Rightarrow> int set" where
  "aaron_choose_defuse_position draw_pile_size =
     (if draw_pile_size \<le> 1 then {0}
      else (let safe_top = 1; safe_bottom = max 1 (draw_pile_size - 1)
            in randint safe_top safe_bottom))"

text \<open>
  \<open>int(draw_pile_size * 0.75)\<close> truncates towards zero; it is reached for sizes above
  \<open>7\<close> only, where truncation is the floor.
\<close>

definition tft_choose_defuse_position :: "int \<Rightarrow> int set" where
  "tft_choose_defuse_position draw_pile_size =
     (if draw_pile_size \<le> 1 then {0}
      else if draw_pile_size = 2 then {1}
      else if draw_pile_size = 3 then randint 1 2
      else if draw_pile_size \<le> 5 then randint 1 (min 3 (draw_pile_size - 1))
      else if draw_pile_size \<le> 7 then randint 2 (draw_pile_size - 1)
      else (let min_pos = 4;
                max_pos = max (min_pos + 1) \<lfloor>real_of_int draw_pile_size * (75 / 100)\<rfloor>
            in randint min_pos max_pos))"

section \<open>Combo detector\<close>

text \<open>A detected combo is the pair of its kind, a string tag, and its cards.\<close>

type_synonym combo = "string \<times> card list"

subsection \<open>\<open>my_bot.py\<close>: \<open>_find_possible_combos\<close>\<close>

text \<open>
  \<open>by_type\<close> is a dictionary from card type to the list of cards of that type; Python
  dictionaries keep insertion order, and the loops below run in that order, so it is an
  association list. \<open>add_to_group\<close> is the body of the grouping loop: a new type goes to the
  end with a one-card list, a known type gets the card appended to its list.
\<close>

fun add_to_group :: "(string \<times> card list) list \<Rightarrow> card \<Rightarrow> (string \<times> card list) list" where
  "add_to_group [] c = [(card_type c, [c])]"
| "add_to_group ((t, cs) # rest) c =
     (if t = card_type c then (t, cs @ [c]) # rest else (t, cs) # add_to_group rest c)"

text \<open>The loop over \<open>by_type.items()\<close> that appends triples and pairs.\<close>

fun pairs_and_triples :: "(string \<times> card list) list \<Rightarrow> combo list" where
  "pairs_and_triples [] = []"
| "pairs_and_triples ((t, cards_of_type) # rest) =
     (if length cards_of_type \<ge> 3 then [(''three_of_a_kind'', take 3 cards_of_type)]
      else if length cards_of_type \<ge> 2 then [(''two_of_a_kind'', take 2 cards_of_type)]
      else []) @ pairs_and_triples rest"

text \<open>
  \<open>by_type[card_type]\<close> for a key taken from \<open>by_type\<close> itself; the keys are there and their
  lists are not empty, so neither \<open>KeyError\<close> nor \<open>IndexError\<close> can arise.
\<close>

definition group_of :: "(string \<times> card list) list \<Rightarrow> string \<Rightarrow> card list" where
  "group_of by_type t = (case map_of by_type t of None \<Rightarrow> [] | Some cs \<Rightarrow> cs)"

definition my_bot_find_possible_combos :: "card list \<Rightarrow> combo list" where
  "my_bot_find_possible_combos hand =
     (let combo_cards = filter can_combo hand in
      if combo_cards = [] then []
      else
        let by_type = foldl add_to_group [] combo_cards;
            combos = pairs_and_triples by_type
        in if length by_type \<ge> 5
           then combos @ [(''five_different'',
                           map (\<lambda>t. hd (group_of by_type t)) (take 5 (map fst by_type)))]
           else combos)"

subsection \<open>\<open>aaron_bot.py\<close>: \<open>_find_possible_combos\<close>\<close>

text \<open>
  \<open>Counter(c.card_type for c in combo_candidates)\<close>, iterated in insertion order: an
  association list from card type to count, built one type at a time.
\<close>

fun count_type :: "(string \<times> nat) list \<Rightarrow> string \<Rightarrow> (string \<times> nat) list" where
  "count_type [] t = [(t, 1)]"
| "count_type ((t', n) # rest) t =
     (if t' = t then (t', n + 1) # rest else (t', n) # count_type rest t)"

fun aaron_pairs_and_triples :: "card list \<Rightarrow> (string \<times> nat) list \<Rightarrow> combo list" where
  "aaron_pairs_and_triples combo_candidates [] = []"
| "aaron_pairs_and_triples combo_candidates ((t, count') # rest) =
     (let cards_of_type = filter (\<lambda>c. card_type c = t) combo_candidates
      in if count' \<ge> 3 then [(''three_of_a_kind'', take 3 cards_of_type)]
         else if count' \<ge> 2 then [(''two_of_a_kind'', take 2 cards_of_type)]
         else []) @ aaron_pairs_and_triples combo_candidates rest"

text \<open>
  The loop over \<open>by_type.keys()\<close> that collects one card per type: it stops once five cards
  are collected, and for each type appends the first candidate of that type.
\<close>

fun aaron_unique_cards :: "card list \<Rightarrow> string list \<Rightarrow> card list \<Rightarrow> card list" where
  "aaron_unique_cards combo_candidates [] unique_cards = unique_cards"
| "aaron_unique_cards combo_candidates (t # ts) unique_cards =
     (if length unique_cards \<ge> 5 then unique_cards
      else aaron_unique_cards combo_candidates ts
             (case find (\<lambda>c. card_type c = t) combo_candidates of
                None \<Rightarrow> unique_cards
              | Some c \<Rightarrow> unique_cards @ [c]))"

definition aaron_find_possible_combos :: "card list \<Rightarrow> combo list" where
  "aaron_find_possible_combos hand =
     (let combo_candidates = filter can_combo hand in
      if combo_candidates = [] then []
      else
        let by_type = foldl count_type [] (map card_type combo_candidates);
            combos = aaron_pairs_and_triples combo_candidates by_type
        in if length by_type \<ge> 5 then
             (let unique_cards = aaron_unique_cards combo_candidates (map fst by_type) []
              in if length unique_cards \<ge> 5
                 then combos @ [(''five_different'', take 5 unique_cards)]
                 else combos)
           else combos)"

section \<open>Action policy\<close>

text \<open>
  Python's \<open>max(xs, key=f)\<close> and \<open>min(xs, key=f)\<close> return the first element with the
  greatest, respectively least, key and raise \<open>ValueError\<close> on an empty sequence, which is
  \<open>None\<close> here. The bots call them on \<open>view.other_players\<close> after testing that it is not
  empty, and pass the result on as the optional target of an action.
\<close>

definition py_max :: "('a \<Rightarrow> int) \<Rightarrow> 'a list \<Rightarrow> 'a option" where
  "py_max key xs =
     (case xs of
        [] \<Rightarrow> None
      | x # rest \<Rightarrow> Some (foldl (\<lambda>best y. if key y > key best then y else best) x rest))"

definition py_min :: "('a \<Rightarrow> int) \<Rightarrow> 'a list \<Rightarrow> 'a option" where
  "py_min key xs =
     (case xs of
        [] \<Rightarrow> None
      | x # rest \<Rightarrow> Some (foldl (\<lambda>best y. if key y < key best then y else best) x rest))"

subsection \<open>\<open>my_bot.py\<close>: \<open>take_turn\<close>\<close>

text \<open>
  The method keeps no state. \<open>cards[0]\<close> is \<open>hd cards\<close>, always under the test that
  \<open>cards\<close> is not empty.
\<close>

definition my_bot_take_turn :: "view \<Rightarrow> action" where
  "my_bot_take_turn v =
     (let see_future_cards = get_cards_of_type v ''SeeTheFutureCard'';
          attack_cards = get_cards_of_type v ''AttackCard'';
          skip_cards = get_cards_of_type v ''SkipCard'';
          combos = my_bot_find_possible_combos (my_hand v);
          favor_cards = get_cards_of_type v ''FavorCard'';
          target = py_max (card_count_of v) (other_players v)
      in if see_future_cards \<noteq> [] \<and> draw_pile_count v > 0
         then PlayCardAction (hd see_future_cards) None
         else if my_turns_remaining v > 1 \<and> attack_cards \<noteq> [] \<and> other_players v \<noteq> []
         then PlayCardAction (hd attack_cards) target
         else if my_turns_remaining v > 1 \<and> skip_cards \<noteq> []
         then PlayCardAction (hd skip_cards) None
         else
           (case (if combos \<noteq> [] \<and> other_players v \<noteq> [] then
                    (case find (\<lambda>cb. fst cb = ''three_of_a_kind'') combos of
                       Some (combo_type, combo_cards) \<Rightarrow> Some (PlayComboAction combo_cards target)
                     | None \<Rightarrow>
                         (case hd combos of (combo_type, combo_cards) \<Rightarrow>
                            if combo_type = ''two_of_a_kind'' \<or> combo_type = ''three_of_a_kind''
                            then Some (PlayComboAction combo_cards target) else None))
                  else None) of
              Some a \<Rightarrow> a
            | None \<Rightarrow>
                if int (length (my_hand v)) < 3 \<and> other_players v \<noteq> [] \<and> favor_cards \<noteq> []
                then PlayCardAction (hd favor_cards) target
                else DrawCardAction))"

subsection \<open>\<open>aaron_bot.py\<close>: \<open>take_turn\<close> and the decision tree under it\<close>

definition STRATEGIC_BOT_PREFIX :: string where
  "STRATEGIC_BOT_PREFIX = ''chatgpt''"

text \<open>\<open>pid.startswith(STRATEGIC_BOT_PREFIX)\<close> for the first such \<open>pid\<close>.\<close>

definition aaron_find_strategic_bot_id :: "view \<Rightarrow> string option" where
  "aaron_find_strategic_bot_id v =
     find (\<lambda>pid. take (length STRATEGIC_BOT_PREFIX) pid = STRATEGIC_BOT_PREFIX) (other_players v)"

definition aaron_has_strategic_bot :: "view \<Rightarrow> bool" where
  "aaron_has_strategic_bot v = (aaron_find_strategic_bot_id v \<noteq> None)"

definition aaron_choose_attack_target :: "view \<Rightarrow> bool \<Rightarrow> string option" where
  "aaron_choose_attack_target v prefer_weak_defense =
     (if other_players v = [] then None
      else case aaron_find_strategic_bot_id v of
             Some strategic \<Rightarrow> Some strategic
           | None \<Rightarrow>
               if prefer_weak_defense then py_min (card_count_of v) (other_players v)
               else py_max (card_count_of v) (other_players v))"

text \<open>
  In \<open>_steal_for_value\<close> the loop over the combos returns at the first combo whose tag is one
  of the three tags the detector produces.
\<close>

definition aaron_steal_for_value :: "view \<Rightarrow> bool \<Rightarrow> action option" where
  "aaron_steal_for_value v bias_for_stf =
     (if other_players v = [] then None
      else case aaron_choose_attack_target v bias_for_stf of
             None \<Rightarrow> None
           | Some target \<Rightarrow>
               (case find (\<lambda>cb. fst cb = ''three_of_a_kind'' \<or> fst cb = ''two_of_a_kind''
                                  \<or> fst cb = ''five_different'')
                       (aaron_find_possible_combos (my_hand v)) of
                  Some (combo_type, combo_cards) \<Rightarrow> Some (PlayComboAction combo_cards (Some target))
                | None \<Rightarrow>
                    (let favor_cards = get_cards_of_type v FAVOR
                     in if favor_cards \<noteq> [] \<and> \<not> aaron_has_strategic_bot v
                        then Some (PlayCardAction (hd favor_cards) (Some target))
                        else None)))"

text \<open>\<open>if target:\<close> on an optional string is \<open>id_truthy\<close>.\<close>

definition aaron_play_defensive :: "view \<Rightarrow> action option" where
  "aaron_play_defensive v =
     (let skip_cards = get_cards_of_type v SKIP;
          attack_cards = get_cards_of_type v ATTACK
      in if skip_cards \<noteq> [] then Some (PlayCardAction (hd skip_cards) None)
         else if attack_cards \<noteq> [] \<and> other_players v \<noteq> [] then
           (if aaron_has_strategic_bot v then None
            else (let target = aaron_choose_attack_target v False
                  in if id_truthy target then Some (PlayCardAction (hd attack_cards) target)
                     else None))
         else None)"

definition aaron_play_aggressive :: "view \<Rightarrow> real \<Rightarrow> action option" where
  "aaron_play_aggressive v ek_probability =
     (case aaron_steal_for_value v False of
        Some steal \<Rightarrow> Some steal
      | None \<Rightarrow>
          (let attack_cards = get_cards_of_type v ATTACK
           in if attack_cards \<noteq> [] \<and> other_players v \<noteq> [] then
                (if aaron_has_strategic_bot v then None
                 else (let target = aaron_choose_attack_target v True
                       in if id_truthy target then Some (PlayCardAction (hd attack_cards) target)
                          else None))
              else None))"

definition aaron_play_after_first_ek :: "aaron_state \<Rightarrow> view \<Rightarrow> action option" where
  "aaron_play_after_first_ek s v =
     (if \<not> a_first_ek_seen_from_other s then None
      else
        let shuffle_cards = get_cards_of_type v SHUFFLE;
            stf_cards = get_cards_of_type v STF
        in if shuffle_cards \<noteq> [] then Some (PlayCardAction (hd shuffle_cards) None)
           else if stf_cards \<noteq> [] \<and> draw_pile_count v > 0
           then Some (PlayCardAction (hd stf_cards) None)
           else (case aaron_steal_for_value v True of
                   Some steal \<Rightarrow> Some steal
                 | None \<Rightarrow>
                     (case aaron_play_defensive v of
                        Some defensive \<Rightarrow> Some defensive
                      | None \<Rightarrow> Some DrawCardAction)))"

text \<open>
  The loop of \<open>_try_play_best_combo\<close> that picks \<open>best\<close>: a five-different combo is taken,
  and ends the loop, only when the top discard is a premium card; the first triple is taken
  and ends the loop; a pair is remembered when nothing is remembered yet.
\<close>

fun aaron_best_combo :: "bool \<Rightarrow> combo list \<Rightarrow> combo option \<Rightarrow> combo option" where
  "aaron_best_combo premium_top [] best = best"
| "aaron_best_combo premium_top ((combo_type, cards) # rest) best =
     (if combo_type = ''five_different'' then
        (if premium_top then Some (combo_type, cards)
         else aaron_best_combo premium_top rest best)
      else if combo_type = ''three_of_a_kind'' then Some (combo_type, cards)
      else if combo_type = ''two_of_a_kind'' \<and> best = None
      then aaron_best_combo premium_top rest (Some (combo_type, cards))
      else aaron_best_combo premium_top rest best)"

text \<open>
  The first part of \<open>_try_play_best_combo\<close>, which settles the target: the chosen attack
  target, or, when that player holds no card, the first opponent who holds one.
\<close>

definition aaron_combo_target :: "view \<Rightarrow> string option" where
  "aaron_combo_target v =
     (if other_players v = [] then None
      else case aaron_choose_attack_target v False of
             None \<Rightarrow> None
           | Some target \<Rightarrow>
               if card_count_of v target \<le> 0 then
                 (case filter (\<lambda>pid. card_count_of v pid > 0) (other_players v) of
                    [] \<Rightarrow> None
                  | pid # _ \<Rightarrow> Some pid)
               else Some target)"

definition aaron_try_play_best_combo :: "view \<Rightarrow> action option" where
  "aaron_try_play_best_combo v =
     (case aaron_combo_target v of
        None \<Rightarrow> None
      | Some target \<Rightarrow>
          let combos = aaron_find_possible_combos (my_hand v) in
          if combos = [] then None
          else
            let premium = {DEFUSE, NOPE, SKIP, ATTACK, SHUFFLE, STF, FAVOR};
                premium_top = (discard_pile v \<noteq> []
                               \<and> card_type (last (discard_pile v)) \<in> premium)
            in case aaron_best_combo premium_top combos None of
                 None \<Rightarrow> None
               | Some (combo_type, cards) \<Rightarrow>
                   if combo_type = ''five_different'' then Some (PlayComboAction cards None)
                   else Some (PlayComboAction cards (Some target)))"

definition aaron_early_low_risk :: "view \<Rightarrow> action" where
  "aaron_early_low_risk v =
     (let attack_cards = get_cards_of_type v ATTACK;
          target = aaron_choose_attack_target v False
      in if my_turns_remaining v > 1 \<and> attack_cards \<noteq> [] \<and> other_players v \<noteq> []
            \<and> id_truthy target
         then PlayCardAction (hd attack_cards) target
         else DrawCardAction)"

definition aaron_midgame_control :: "aaron_state \<Rightarrow> view \<Rightarrow> action" where
  "aaron_midgame_control s v =
     (let shuffle_cards = get_cards_of_type v SHUFFLE;
          known = a_known_top_cards s
      in if shuffle_cards \<noteq> [] \<and> truthy known \<and> EXPLODING \<in> set (visible_cards known)
            \<and> \<not> aaron_has_strategic_bot v
         then PlayCardAction (hd shuffle_cards) None
         else
           (case (if truthy known \<and> hd (visible_cards known) = EXPLODING
                  then aaron_play_defensive v else None) of
              Some defensive \<Rightarrow> defensive
            | None \<Rightarrow>
                (case aaron_steal_for_value v True of
                   Some steal \<Rightarrow> steal
                 | None \<Rightarrow> DrawCardAction)))"

definition aaron_late_high_risk :: "aaron_state \<Rightarrow> view \<Rightarrow> real \<Rightarrow> action" where
  "aaron_late_high_risk s v ek_probability =
     (let shuffle_cards = get_cards_of_type v SHUFFLE;
          known = a_known_top_cards s;
          skip_cards = get_cards_of_type v SKIP
      in if shuffle_cards \<noteq> [] \<and> \<not> aaron_has_strategic_bot v
         then PlayCardAction (hd shuffle_cards) None
         else
           (case aaron_play_defensive v of
              Some defensive \<Rightarrow> defensive
            | None \<Rightarrow>
                (case aaron_play_aggressive v ek_probability of
                   Some aggressive \<Rightarrow> aggressive
                 | None \<Rightarrow>
                     if truthy known \<and> hd (visible_cards known) \<noteq> EXPLODING
                        \<and> my_turns_remaining v > 1 \<and> skip_cards \<noteq> []
                     then PlayCardAction (hd skip_cards) None
                     else DrawCardAction)))"

definition aaron_decide_action :: "aaron_state \<Rightarrow> view \<Rightarrow> real \<Rightarrow> action" where
  "aaron_decide_action s v ek_probability =
     (case aaron_try_play_best_combo v of
        Some combo_action \<Rightarrow> combo_action
      | None \<Rightarrow>
          (let stf_cards = get_cards_of_type v STF
           in if stf_cards \<noteq> [] \<and> a_known_top_cards s = None \<and> ek_probability \<ge> 33 / 100
                 \<and> draw_pile_count v > 0
              then PlayCardAction (hd stf_cards) None
              else if ek_probability < 33 / 100 then aaron_early_low_risk v
              else if ek_probability < 5 / 10 then aaron_midgame_control s v
              else aaron_late_high_risk s v ek_probability))"

text \<open>
  \<open>take_turn\<close> pins the initial player count, counts the turn, and returns the action
  together with the state it leaves.
\<close>

definition aaron_initialize_game_baseline :: "aaron_state \<Rightarrow> view \<Rightarrow> aaron_state" where
  "aaron_initialize_game_baseline s v =
     (if a_initial_player_count s = None
      then s\<lparr>a_initial_player_count := Some (int (length (turn_order v)))\<rparr> else s)"

definition aaron_take_turn :: "aaron_state \<Rightarrow> view \<Rightarrow> aaron_state \<times> action" where
  "aaron_take_turn s v =
     (let s1 = aaron_initialize_game_baseline s v;
          s2 = s1\<lparr>a_turn_count := a_turn_count s1 + 1\<rparr>;
          ek_risk = aaron_calculate_ek_risk s2 v
      in if a_turn_count s2 = 1 then (s2, DrawCardAction)
         else (case aaron_play_after_first_ek s2 v of
                 Some post_first \<Rightarrow> (s2, post_first)
               | None \<Rightarrow> (s2, aaron_decide_action s2 v ek_risk)))"

subsection \<open>\<open>mastermind_bot.py\<close>: where the policy reads the opponent model\<close>

text \<open>
  \<open>self._opponent_defense_prob.get(pid, 0.5)\<close>, the expression by which \<open>_play_defensive\<close>
  and \<open>_choose_best_target\<close> read the stored defensive probability of an opponent: an
  opponent without a stored value reads as \<open>0.5\<close>. The stored veto probability is written
  by \<open>_update_opponent_model\<close> and read nowhere.
\<close>

definition opponent_defense_prob_get :: "mastermind_state \<Rightarrow> string \<Rightarrow> real" where
  "opponent_defense_prob_get s pid =
     (case m_opponent_defense_prob s pid of None \<Rightarrow> 5 / 10 | Some p \<Rightarrow> p)"

text \<open>\<open>self._opponent_defuses_used.get(pid, False)\<close>.\<close>

definition opponent_defuses_used_get :: "mastermind_state \<Rightarrow> string \<Rightarrow> bool" where
  "opponent_defuses_used_get s pid =
     (case m_opponent_defuses_used s pid of None \<Rightarrow> False | Some b \<Rightarrow> b)"

definition mastermind_choose_weakest_target :: "mastermind_state \<Rightarrow> view \<Rightarrow> string option" where
  "mastermind_choose_weakest_target s v =
     (if other_players v = [] then None
      else
        let valid_targets = filter (\<lambda>pid. card_count_of v pid > 0) (other_players v) in
        if valid_targets = [] then None
        else
          let weak_candidates = filter (\<lambda>pid. \<not> opponent_defuses_used_get s pid) valid_targets
          in if weak_candidates \<noteq> [] then py_min (card_count_of v) weak_candidates
             else py_min (card_count_of v) valid_targets)"

definition mastermind_play_defensive :: "mastermind_state \<Rightarrow> view \<Rightarrow> action option" where
  "mastermind_play_defensive s v =
     (let skip_cards = get_cards_of_type v SKIP;
          attack_cards = get_cards_of_type v ATTACK
      in if skip_cards \<noteq> [] then Some (PlayCardAction (hd skip_cards) None)
         else if attack_cards \<noteq> [] \<and> other_players v \<noteq> [] then
           (case mastermind_choose_weakest_target s v of
              Some target \<Rightarrow>
                if target \<noteq> []
                   \<and> (draw_pile_count v \<le> 15 \<or> opponent_defense_prob_get s target < 4 / 10)
                then Some (PlayCardAction (hd attack_cards) (Some target))
                else None
            | None \<Rightarrow> None)
         else None)"

section \<open>Notions used to state the properties, and sample inputs\<close>

subsection \<open>The opponent model's inputs\<close>

text \<open>
  The opponent model in the spec's words, for a counter \<open>h\<close> of observed plays that is not
  empty: the defensive probability is the number of skip, redirect-turn, reshuffle and
  neutralizer plays over all observed plays, under a cap; the veto probability is the
  number of veto plays over all observed plays, under a cap.
\<close>

definition spec_defensive :: "real \<Rightarrow> string multiset \<Rightarrow> real" where
  "spec_defensive cap h =
     min cap (real (count h SKIP + count h ATTACK + count h SHUFFLE + count h DEFUSE)
              / real (size h))"

definition spec_veto :: "real \<Rightarrow> string multiset \<Rightarrow> real" where
  "spec_veto cap h = min cap (real (count h NOPE) / real (size h))"

text \<open>
  Mastermind's tracker run from the state \<open>__init__\<close> builds over a sequence of events, each
  with the view it is delivered with. \<open>on_event\<close> is the only method of the bot that
  assigns the opponent counters and the stored probabilities.
\<close>

fun mastermind_run :: "(game_event \<times> view) list \<Rightarrow> mastermind_state \<Rightarrow> mastermind_state" where
  "mastermind_run [] s = s"
| "mastermind_run ((e, v) # rest) s = mastermind_run rest (mastermind_on_event e v s)"

text \<open>
  The stored probabilities agree with the counters: nothing is stored for an opponent whose
  counter is empty, and the spec's two ratios of the counter, under mastermind's caps, for
  every other one.
\<close>

definition in_step :: "mastermind_state \<Rightarrow> bool" where
  "in_step s = (\<forall>q.
      m_opponent_defense_prob s q
        = (if counter_of (m_opponent_card_counts s) q = {#} then None
           else Some (spec_defensive (9 / 10) (counter_of (m_opponent_card_counts s) q)))
    \<and> m_opponent_nope_prob s q
        = (if counter_of (m_opponent_card_counts s) q = {#} then None
           else Some (spec_veto (8 / 10) (counter_of (m_opponent_card_counts s) q))))"

subsection \<open>The combo detector's inputs\<close>

text \<open>
  The combo-eligible cards of a hand, those of one kind, and the kinds present, each kind
  once, in the order of its first card in the hand.
\<close>

definition eligible :: "card list \<Rightarrow> card list" where
  "eligible hand = filter can_combo hand"

definition of_kind :: "string \<Rightarrow> card list \<Rightarrow> card list" where
  "of_kind t hand = filter (\<lambda>c. card_type c = t) (eligible hand)"

definition first_seen :: "'a list \<Rightarrow> 'a list" where
  "first_seen xs = rev (remdups (rev xs))"

definition kinds :: "card list \<Rightarrow> string list" where
  "kinds hand = first_seen (map card_type (eligible hand))"

text \<open>The first kind, in that order, with three or more eligible cards in the hand.\<close>

definition first_triple_kind :: "card list \<Rightarrow> string option" where
  "first_triple_kind hand = find (\<lambda>t. 3 \<le> length (of_kind t hand)) (kinds hand)"

text \<open>
  The pair and triple entries of a detector's output that are made of cards of kind \<open>t\<close>,
  and its five-distinct entries.
\<close>

definition about_kind :: "string \<Rightarrow> combo \<Rightarrow> bool" where
  "about_kind t cb = (fst cb \<noteq> ''five_different'' \<and> t \<in> card_type ` set (snd cb))"

definition is_five :: "combo \<Rightarrow> bool" where
  "is_five cb = (fst cb = ''five_different'')"

text \<open>
  The detector in the spec's words: for each kind present, in order, a triple of its first
  three cards when it has three or more and a pair when it has exactly two; then, when five
  or more kinds are present, one five-distinct combo of the first card of each of the first
  five kinds.
\<close>

definition spec_entry :: "card list \<Rightarrow> combo list" where
  "spec_entry cs =
     (if length cs \<ge> 3 then [(''three_of_a_kind'', take 3 cs)]
      else if length cs = 2 then [(''two_of_a_kind'', cs)]
      else [])"

definition spec_find_combos :: "card list \<Rightarrow> combo list" where
  "spec_find_combos hand =
     concat (map (\<lambda>t. spec_entry (of_kind t hand)) (kinds hand))
     @ (if length (kinds hand) \<ge> 5
        then [(''five_different'', map (\<lambda>t. hd (of_kind t hand)) (take 5 (kinds hand)))]
        else [])"

text \<open>
  The contents of the two \<open>by_type\<close> dictionaries, said directly: for each kind in order of
  first appearance, the cards of that kind, respectively their number.
\<close>

definition grouped :: "card list \<Rightarrow> (string \<times> card list) list" where
  "grouped cs = map (\<lambda>t. (t, filter (\<lambda>c. card_type c = t) cs)) (first_seen (map card_type cs))"

definition counted :: "string list \<Rightarrow> (string \<times> nat) list" where
  "counted ts = map (\<lambda>k. (k, length (filter (\<lambda>t. t = k) ts))) (first_seen ts)"

text \<open>A neutralizer, and a combo-eligible collectible card of the given kind.\<close>

definition defuse_card :: card where
  "defuse_card = \<lparr>card_type = DEFUSE, can_combo = False\<rparr>"


definition cat :: "string \<Rightarrow> card" where
  "cat t = \<lparr>card_type = t, can_combo = True\<rparr>"

text \<open>
  A hand with three cards of one eligible kind and two of another, and a hand with one card
  of each of five eligible kinds; both also hold a card that is not eligible.
\<close>

definition triple_pair_hand :: "card list" where
  "triple_pair_hand =
     [cat ''TacoCat'', cat ''BeardCat'', cat ''TacoCat'', defuse_card, cat ''BeardCat'',
      cat ''TacoCat'']"

definition five_kinds_hand :: "card list" where
  "five_kinds_hand =
     [cat ''TacoCat'', cat ''BeardCat'', defuse_card, cat ''RainbowCat'', cat ''PotatoCat'',
      cat ''Cattermelon'']"

subsection \<open>The estimator's inputs\<close>

text \<open>
  The same view with the neutralizers taken out of the hand. The estimator's value on it is
  the risk before any cushion, since the hand enters the estimators only through
  \<open>count_cards_of_type(DEFUSE)\<close>.
\<close>

definition without_defuse :: "view \<Rightarrow> view" where
  "without_defuse v = v\<lparr>my_hand := filter (\<lambda>c. card_type c \<noteq> DEFUSE) (my_hand v)\<rparr>"

subsection \<open>Initial states and sample inputs\<close>

text \<open>The state \<open>MyBot.__init__\<close> of \<open>aaron_bot.py\<close> builds.\<close>

definition aaron_init :: aaron_state where
  "aaron_init =
     \<lparr>a_turn_count = 0, a_initial_player_count = None, a_first_ek_seen_from_other = False,
      a_kittens_removed = 0, a_known_top_cards = None, a_opponent_card_history = Map.empty,
      a_opponent_card_counts = Map.empty, a_defuses_seen = 0\<rparr>"

text \<open>The state \<open>MastermindBot.__init__\<close> builds.\<close>

definition mastermind_init :: mastermind_state where
  "mastermind_init =
     \<lparr>m_turn_count = 0, m_initial_player_count = None, m_first_ek_seen = False,
      m_kittens_removed = 0, m_defuses_used = 0, m_known_top_cards = None,
      m_deck_shuffled = True, m_last_shuffle_turn = - 1,
      m_opponent_card_history = Map.empty, m_opponent_card_counts = Map.empty,
      m_opponent_defense_prob = Map.empty, m_opponent_nope_prob = Map.empty,
      m_opponent_defuses_used = Map.empty, m_opponent_last_seen_hand_size = Map.empty,
      m_game_phase = ''early'', m_my_defuses = 0, m_just_peeked = False,
      m_stf_planning_turns = 0\<rparr>"

text \<open>The state \<open>TFTBot.__init__\<close> builds.\<close>

definition tft_init :: tft_state where
  "tft_init =
     \<lparr>t_first_ek_drawn = False, t_deck_shuffled = True, t_num_players = 0,
      t_num_eks_remaining = 0, t_opponent_card_history = Map.empty, t_last_stf_step = - 1,
      t_just_shuffled = False, t_last_peeked_cards = [], t_ek_on_top = False\<rparr>"

text \<open>An event of the given kind by the given player, with an empty payload.\<close>

definition sample_event :: "EventType \<Rightarrow> string \<Rightarrow> game_event" where
  "sample_event kind pid =
     \<lparr>event_type = kind, player_id = Some pid, data_card_types = None,
      data_card_type = None, data_target_player_id = None, data_target = None\<rparr>"

text \<open>
  A four-player table seen by player \<open>me\<close>: twenty cards in the draw pile, an empty hand.
  The sample inputs below vary it.
\<close>

definition sample_view :: view where
  "sample_view =
     \<lparr>my_id = ''me'', my_hand = [], draw_pile_count = 20, discard_pile = [],
      turn_order = [''me'', ''p1'', ''p2'', ''p3''], my_turns_remaining = 1,
      other_players = [''p1'', ''p2'', ''p3''],
      other_player_card_counts = map_of [(''p1'', 5), (''p2'', 4), (''p3'', 6)]\<rparr>"

definition attack_card :: card where
  "attack_card = \<lparr>card_type = ATTACK, can_combo = False\<rparr>"

text \<open>The sample view with one redirect-turn card in hand.\<close>

definition attack_view :: view where
  "attack_view = sample_view\<lparr>my_hand := [attack_card]\<rparr>"

definition nope_card :: card where
  "nope_card = \<lparr>card_type = NOPE, can_combo = False\<rparr>"

text \<open>Opponent \<open>p1\<close> plays a turn-skip card; opponent \<open>p1\<close> plays a redirect-turn card at \<open>me\<close>.\<close>

definition skip_played :: game_event where
  "skip_played = (sample_event CARD_PLAYED ''p1'')\<lparr>data_card_type := Some SKIP\<rparr>"

definition attack_on_me :: game_event where
  "attack_on_me = (sample_event CARD_PLAYED ''p1'')
     \<lparr>data_card_type := Some ATTACK, data_target_player_id := Some ''me''\<rparr>"

definition stf_card :: card where
  "stf_card = \<lparr>card_type = STF, can_combo = False\<rparr>"

text \<open>
  The sample view with the triple-and-pair hand, and the same with a peek card on top of it.
\<close>

definition combo_view :: view where
  "combo_view = sample_view\<lparr>my_hand := triple_pair_hand\<rparr>"

definition combo_stf_view :: view where
  "combo_stf_view = sample_view\<lparr>my_hand := stf_card # triple_pair_hand\<rparr>"

text \<open>The sample view with \<open>n\<close> neutralizers in hand.\<close>

definition defuse_view :: "nat \<Rightarrow> view" where
  "defuse_view n = sample_view\<lparr>my_hand := replicate n defuse_card\<rparr>"

section \<open>Properties of the risk estimator\<close>

lemma cushion_ge: "3 / 10 \<le> mastermind_cushion k"
  by (simp add: mastermind_cushion_def)

lemma cushion_nonneg: "0 \<le> mastermind_cushion k"
  using cushion_ge [of k] by simp

lemma cushion_lt_1: "0 < k \<Longrightarrow> mastermind_cushion k < 1"
  by (simp add: mastermind_cushion_def)

lemma cushion_le_1: "0 < k \<Longrightarrow> mastermind_cushion k \<le> 1"
  using cushion_lt_1 [of k] by simp

lemma min_one_scaled: "min 1 x * 3 \<le> (5::real)"
  by (simp add: min_def)

lemma aaron_risk_range:
  "0 \<le> aaron_calculate_ek_risk s v \<and> aaron_calculate_ek_risk s v \<le> 1"
  by (auto simp: aaron_calculate_ek_risk_def Let_def min_one_scaled
      split: option.splits list.splits)

lemma mm_risk_range:
  assumes "0 \<le> draw_pile_count v"
  shows "0 \<le> mastermind_calculate_ek_risk s v \<and> mastermind_calculate_ek_risk s v \<le> 1"
  using assms
  by (auto simp: mastermind_calculate_ek_risk_def Let_def cushion_nonneg cushion_le_1
      intro!: mult_le_one mult_nonneg_nonneg split: option.splits list.splits)

lemma mm_empty_pile: "draw_pile_count v = 0 \<Longrightarrow> mastermind_calculate_ek_risk s v = 0"
  by (simp add: mastermind_calculate_ek_risk_def)

lemma aaron_pile_floor:
  "aaron_calculate_ek_risk s (v\<lparr>draw_pile_count := 0\<rparr>)
     = aaron_calculate_ek_risk s (v\<lparr>draw_pile_count := 1\<rparr>)"
  by (simp add: aaron_calculate_ek_risk_def Let_def players_or_def count_cards_of_type_def
      get_cards_of_type_def split: option.splits list.splits)

lemma aaron_hazard_on_top:
  "a_known_top_cards s = Some (EXPLODING # cs) \<Longrightarrow> aaron_calculate_ek_risk s v = 1"
  by (simp add: aaron_calculate_ek_risk_def Let_def)

lemma mm_hazard_on_top:
  "draw_pile_count v \<noteq> 0 \<Longrightarrow> m_known_top_cards s = Some (EXPLODING # cs) \<Longrightarrow>
   mastermind_calculate_ek_risk s v = 1"
  by (simp add: mastermind_calculate_ek_risk_def Let_def)

lemma sample_pile [simp]: "draw_pile_count sample_view = 20"
  by (simp add: sample_view_def)

text \<open>
  Claim C1, as the code has it. Both estimators return a value in \<open>[0, 1]\<close> (mastermind's for
  a draw pile count that is not negative, which a count never is). Mastermind's returns
  exactly \<open>0\<close> on an empty draw pile. Aaron's has no such case: it reads the pile size as
  \<open>max(1, count)\<close>, so an empty pile is estimated like a pile of one card. With a hazardous
  card first in a non-empty known-top sequence aaron's returns exactly \<open>1\<close>, and so does
  mastermind's when the draw pile is not empty (its empty-pile test comes first).
\<close>

theorem risk_estimator_unit_interval:
  "0 \<le> aaron_calculate_ek_risk sa v \<and> aaron_calculate_ek_risk sa v \<le> 1
   \<and> (0 \<le> draw_pile_count v \<longrightarrow>
        0 \<le> mastermind_calculate_ek_risk sm v \<and> mastermind_calculate_ek_risk sm v \<le> 1)
   \<and> (draw_pile_count v = 0 \<longrightarrow> mastermind_calculate_ek_risk sm v = 0)
   \<and> aaron_calculate_ek_risk sa (v\<lparr>draw_pile_count := 0\<rparr>)
       = aaron_calculate_ek_risk sa (v\<lparr>draw_pile_count := 1\<rparr>)
   \<and> (a_known_top_cards sa = Some (EXPLODING # cs) \<longrightarrow> aaron_calculate_ek_risk sa v = 1)
   \<and> (draw_pile_count v \<noteq> 0 \<and> m_known_top_cards sm = Some (EXPLODING # cs) \<longrightarrow>
        mastermind_calculate_ek_risk sm v = 1)"
  using aaron_risk_range [of sa v] mm_risk_range [of v sm] mm_empty_pile [of v sm]
    aaron_pile_floor [of sa v] aaron_hazard_on_top [of sa cs v] mm_hazard_on_top [of v sm cs]
  by blast

theorem risk_estimator_unit_interval_witness:
  "(0 \<le> draw_pile_count sample_view
     \<and> 0 \<le> mastermind_calculate_ek_risk mastermind_init sample_view
     \<and> mastermind_calculate_ek_risk mastermind_init sample_view \<le> 1)
   \<and> (draw_pile_count (sample_view\<lparr>draw_pile_count := 0\<rparr>) = 0
     \<and> mastermind_calculate_ek_risk mastermind_init (sample_view\<lparr>draw_pile_count := 0\<rparr>) = 0)
   \<and> (a_known_top_cards (aaron_init\<lparr>a_known_top_cards := Some [EXPLODING]\<rparr>)
        = Some (EXPLODING # [])
     \<and> aaron_calculate_ek_risk (aaron_init\<lparr>a_known_top_cards := Some [EXPLODING]\<rparr>)
          sample_view = 1)
   \<and> (draw_pile_count sample_view \<noteq> 0
     \<and> m_known_top_cards (mastermind_init\<lparr>m_known_top_cards := Some [EXPLODING]\<rparr>)
        = Some (EXPLODING # [])
     \<and> mastermind_calculate_ek_risk (mastermind_init\<lparr>m_known_top_cards := Some [EXPLODING]\<rparr>)
          sample_view = 1)"
  using risk_estimator_unit_interval [of aaron_init sample_view mastermind_init "[]"]
    risk_estimator_unit_interval
      [of aaron_init "sample_view\<lparr>draw_pile_count := 0\<rparr>" mastermind_init "[]"]
    risk_estimator_unit_interval
      [of "aaron_init\<lparr>a_known_top_cards := Some [EXPLODING]\<rparr>" sample_view
          "mastermind_init\<lparr>m_known_top_cards := Some [EXPLODING]\<rparr>" "[]"]
  by simp

text \<open>
  The claim as the spec words it fails: on an empty draw pile aaron's estimator returns \<open>1\<close>,
  not \<open>0\<close>; and with a hazardous card known on top of an empty pile mastermind's returns
  \<open>0\<close>, not \<open>1\<close>.
\<close>

theorem risk_estimator_empty_pile_counterexample:
  "draw_pile_count (sample_view\<lparr>draw_pile_count := 0\<rparr>) = 0
   \<and> aaron_calculate_ek_risk aaron_init (sample_view\<lparr>draw_pile_count := 0\<rparr>) \<noteq> 0
   \<and> m_known_top_cards (mastermind_init\<lparr>m_known_top_cards := Some [EXPLODING]\<rparr>)
        = Some [EXPLODING]
   \<and> mastermind_calculate_ek_risk (mastermind_init\<lparr>m_known_top_cards := Some [EXPLODING]\<rparr>)
        (sample_view\<lparr>draw_pile_count := 0\<rparr>) \<noteq> 1"
  by (simp add: aaron_calculate_ek_risk_def mastermind_calculate_ek_risk_def aaron_init_def
      sample_view_def players_or_def count_cards_of_type_def get_cards_of_type_def)

lemma index_of_pos: "vis \<noteq> [] \<Longrightarrow> hd vis \<noteq> x \<Longrightarrow> 0 < index_of x vis"
  by (cases vis) auto

lemma aaron_hazard_later:
  assumes "vis \<noteq> []" "hd vis \<noteq> EXPLODING" "EXPLODING \<in> set vis" "a_known_top_cards s = Some vis"
  shows "aaron_calculate_ek_risk s v = 1 / real (length vis)"
  using assms by (cases vis) (auto simp: aaron_calculate_ek_risk_def Let_def)

lemma mm_hazard_later:
  assumes "vis \<noteq> []" "hd vis \<noteq> EXPLODING" "EXPLODING \<in> set vis" "m_known_top_cards s = Some vis"
    "draw_pile_count v \<noteq> 0"
  shows "mastermind_calculate_ek_risk s v = (if index_of EXPLODING vis = 1 then 1 / 2 else 33 / 100)"
  using assms by (cases vis) (auto simp: mastermind_calculate_ek_risk_def Let_def)

text \<open>
  Claim C2, as the code has it. Let a hazardous card be in the known-top sequence, but not
  first, so that its index \<open>i\<close> is at least \<open>1\<close>. Aaron's estimator returns \<open>1 / n\<close> for \<open>n\<close>
  the length of the known sequence, which is \<open>1 / (i + 1)\<close> when the hazard is the last
  known card (\<open>[safe, hazard]\<close> gives \<open>1/2\<close>, \<open>[safe, safe, hazard]\<close> gives \<open>1/3\<close>).
  Mastermind's, on a non-empty draw pile, returns \<open>0.5\<close> for \<open>i = 1\<close> and the constant
  \<open>0.33\<close> for every \<open>i \<ge> 2\<close>.
\<close>

theorem peeked_hazard_later_risk:
  assumes "vis \<noteq> []" and "hd vis \<noteq> EXPLODING" and "EXPLODING \<in> set vis"
  shows "1 \<le> index_of EXPLODING vis
    \<and> (a_known_top_cards sa = Some vis \<longrightarrow>
         aaron_calculate_ek_risk sa va = 1 / real (length vis))
    \<and> (a_known_top_cards sa = Some vis \<and> length vis = index_of EXPLODING vis + 1 \<longrightarrow>
         aaron_calculate_ek_risk sa va = 1 / (real (index_of EXPLODING vis) + 1))
    \<and> (m_known_top_cards sm = Some vis \<and> draw_pile_count vm \<noteq> 0 \<longrightarrow>
         mastermind_calculate_ek_risk sm vm
           = (if index_of EXPLODING vis = 1 then 1 / 2 else 33 / 100))"
proof -
  have i: "1 \<le> index_of EXPLODING vis"
    using index_of_pos [OF assms(1,2)] by simp
  have a: "a_known_top_cards sa = Some vis \<Longrightarrow> aaron_calculate_ek_risk sa va = 1 / real (length vis)"
    by (rule aaron_hazard_later [OF assms])
  have m: "m_known_top_cards sm = Some vis \<Longrightarrow> draw_pile_count vm \<noteq> 0 \<Longrightarrow>
      mastermind_calculate_ek_risk sm vm = (if index_of EXPLODING vis = 1 then 1 / 2 else 33 / 100)"
    by (rule mm_hazard_later [OF assms])
  have last: "a_known_top_cards sa = Some vis \<Longrightarrow> length vis = index_of EXPLODING vis + 1 \<Longrightarrow>
      aaron_calculate_ek_risk sa va = 1 / (real (index_of EXPLODING vis) + 1)"
    using a by simp
  show ?thesis using i a m last by blast
qed

theorem peeked_hazard_later_risk_witness:
  "aaron_calculate_ek_risk (aaron_init\<lparr>a_known_top_cards := Some [SKIP, EXPLODING]\<rparr>) sample_view = 1 / 2
   \<and> aaron_calculate_ek_risk (aaron_init\<lparr>a_known_top_cards := Some [SKIP, SKIP, EXPLODING]\<rparr>) sample_view = 1 / 3
   \<and> mastermind_calculate_ek_risk (mastermind_init\<lparr>m_known_top_cards := Some [SKIP, EXPLODING]\<rparr>) sample_view = 1 / 2
   \<and> mastermind_calculate_ek_risk (mastermind_init\<lparr>m_known_top_cards := Some [SKIP, SKIP, EXPLODING]\<rparr>) sample_view = 33 / 100"
  using peeked_hazard_later_risk [of "[SKIP, EXPLODING]" "aaron_init\<lparr>a_known_top_cards := Some [SKIP, EXPLODING]\<rparr>" sample_view
      "mastermind_init\<lparr>m_known_top_cards := Some [SKIP, EXPLODING]\<rparr>" sample_view]
    peeked_hazard_later_risk [of "[SKIP, SKIP, EXPLODING]" "aaron_init\<lparr>a_known_top_cards := Some [SKIP, SKIP, EXPLODING]\<rparr>" sample_view
      "mastermind_init\<lparr>m_known_top_cards := Some [SKIP, SKIP, EXPLODING]\<rparr>" sample_view]
  by (simp add: card_consts)

text \<open>
  The claim as the spec words it fails: for \<open>[safe, hazard, safe]\<close> (\<open>i = 1\<close>) aaron's
  estimator returns \<open>1/3\<close>, not \<open>1/2\<close>; for \<open>[safe, safe, hazard]\<close> (\<open>i = 2\<close>) mastermind's
  returns \<open>0.33\<close>, not \<open>1/3\<close>.
\<close>

theorem peeked_hazard_later_counterexample:
  "index_of EXPLODING [SKIP, EXPLODING, SKIP] = 1
   \<and> aaron_calculate_ek_risk (aaron_init\<lparr>a_known_top_cards := Some [SKIP, EXPLODING, SKIP]\<rparr>) sample_view
       \<noteq> 1 / (1 + 1)
   \<and> index_of EXPLODING [SKIP, SKIP, EXPLODING] = 2
   \<and> mastermind_calculate_ek_risk (mastermind_init\<lparr>m_known_top_cards := Some [SKIP, SKIP, EXPLODING]\<rparr>) sample_view
       \<noteq> 1 / (2 + 1)"
  by (simp add: aaron_calculate_ek_risk_def mastermind_calculate_ek_risk_def card_consts Let_def)

lemma count_without_defuse: "count_cards_of_type (without_defuse v) DEFUSE = 0"
  by (simp add: count_cards_of_type_def get_cards_of_type_def without_defuse_def)

lemma without_defuse_fields:
  "draw_pile_count (without_defuse v) = draw_pile_count v"
  "turn_order (without_defuse v) = turn_order v"
  by (simp_all add: without_defuse_def)

lemma players_or_without: "players_or i (without_defuse v) = players_or i v"
  by (simp add: players_or_def without_defuse_fields split: option.splits)

lemma mm_cushion_step:
  assumes "1 \<le> count_cards_of_type v DEFUSE" "draw_pile_count v \<noteq> 0"
    "EXPLODING \<notin> set (visible_cards (m_known_top_cards s))"
  shows "mastermind_calculate_ek_risk s v
    = mastermind_cushion (count_cards_of_type v DEFUSE) * mastermind_calculate_ek_risk s (without_defuse v)"
  using assms
  by (auto simp: mastermind_calculate_ek_risk_def Let_def visible_cards_def count_without_defuse
      without_defuse_fields players_or_without split: option.splits list.splits)

lemma aaron_cushion_step:
  assumes "1 \<le> count_cards_of_type v DEFUSE" "\<not> truthy (a_known_top_cards s)"
  shows "aaron_calculate_ek_risk s v = 6 / 10 * aaron_calculate_ek_risk s (without_defuse v)"
  using assms
  by (auto simp: aaron_calculate_ek_risk_def Let_def truthy_def count_without_defuse
      without_defuse_fields players_or_without split: option.splits list.splits)

lemma mm_no_cushion:
  assumes "EXPLODING \<in> set (visible_cards (m_known_top_cards s))"
  shows "mastermind_calculate_ek_risk s v = mastermind_calculate_ek_risk s (without_defuse v)"
  using assms
  by (auto simp: mastermind_calculate_ek_risk_def Let_def visible_cards_def
      without_defuse_fields split: option.splits list.splits)

lemma aaron_no_cushion:
  assumes "truthy (a_known_top_cards s)"
  shows "aaron_calculate_ek_risk s v = aaron_calculate_ek_risk s (without_defuse v)"
  using assms
  by (auto simp: aaron_calculate_ek_risk_def Let_def truthy_def
      without_defuse_fields players_or_without split: option.splits list.splits)

lemma cushion_mono: "k \<le> k' \<Longrightarrow> mastermind_cushion k' \<le> mastermind_cushion k"
  by (auto simp: mastermind_cushion_def max_def)

lemma cushion_strict: "k < k' \<Longrightarrow> k' \<le> 3 \<Longrightarrow> mastermind_cushion k' < mastermind_cushion k"
  by (auto simp: mastermind_cushion_def max_def)

lemma cushion_floor: "3 \<le> k \<Longrightarrow> mastermind_cushion k = 3 / 10"
  by (auto simp: mastermind_cushion_def max_def)


text \<open>
  Claim C8, as the code has it. Let the agent hold \<open>k \<ge> 1\<close> neutralizers. Where the
  estimator reaches its cushion step (mastermind: non-empty draw pile and no hazard in the
  known-top sequence; aaron: no peek knowledge), the returned risk is the cushion-free risk
  times a factor: mastermind's \<open>max(0.3, 1 - 0.25 k)\<close>, aaron's constant \<open>0.6\<close>. Mastermind's
  factor lies in \<open>[0.3, 1)\<close>, never grows with \<open>k\<close>, strictly decreases up to \<open>k = 3\<close> and
  stays at the floor \<open>0.3\<close> from there on. On the other paths (a hazard among the known
  cards for mastermind, any peek knowledge for aaron) the risk is returned without cushion.
\<close>

theorem neutralizer_cushion:
  assumes "1 \<le> count_cards_of_type v DEFUSE"
  shows "(draw_pile_count v \<noteq> 0 \<and> EXPLODING \<notin> set (visible_cards (m_known_top_cards sm)) \<longrightarrow>
          mastermind_calculate_ek_risk sm v
            = mastermind_cushion (count_cards_of_type v DEFUSE)
                * mastermind_calculate_ek_risk sm (without_defuse v))
    \<and> (EXPLODING \<in> set (visible_cards (m_known_top_cards sm)) \<longrightarrow>
          mastermind_calculate_ek_risk sm v = mastermind_calculate_ek_risk sm (without_defuse v))
    \<and> (\<not> truthy (a_known_top_cards sa) \<longrightarrow>
          aaron_calculate_ek_risk sa v = 6 / 10 * aaron_calculate_ek_risk sa (without_defuse v))
    \<and> (truthy (a_known_top_cards sa) \<longrightarrow>
          aaron_calculate_ek_risk sa v = aaron_calculate_ek_risk sa (without_defuse v))
    \<and> 3 / 10 \<le> mastermind_cushion (count_cards_of_type v DEFUSE)
    \<and> mastermind_cushion (count_cards_of_type v DEFUSE) < 1
    \<and> (count_cards_of_type v DEFUSE \<le> k' \<longrightarrow>
          mastermind_cushion k' \<le> mastermind_cushion (count_cards_of_type v DEFUSE))
    \<and> (count_cards_of_type v DEFUSE < k' \<and> k' \<le> 3 \<longrightarrow>
          mastermind_cushion k' < mastermind_cushion (count_cards_of_type v DEFUSE))
    \<and> (3 \<le> count_cards_of_type v DEFUSE \<longrightarrow>
          mastermind_cushion (count_cards_of_type v DEFUSE) = 3 / 10)"
proof -
  let ?k = "count_cards_of_type v DEFUSE"
  have pos: "0 < ?k" using assms by simp
  show ?thesis
    using mm_cushion_step [OF assms, of sm] mm_no_cushion [of sm v]
      aaron_cushion_step [OF assms, of sa] aaron_no_cushion [of sa v]
      cushion_ge [of ?k] cushion_lt_1 [OF pos] cushion_mono [of ?k k']
      cushion_strict [of ?k k'] cushion_floor [of ?k]
    by blast
qed

lemma defuse_view_count [simp]: "count_cards_of_type (defuse_view n) DEFUSE = int n"
  by (simp add: defuse_view_def count_cards_of_type_def get_cards_of_type_def defuse_card_def)

lemma defuse_view_pile [simp]: "draw_pile_count (defuse_view n) = 20"
  by (simp add: defuse_view_def)

lemma skip_not_exploding [simp]: "SKIP \<noteq> EXPLODING" "EXPLODING \<noteq> SKIP"
  by (simp_all add: card_consts)

theorem neutralizer_cushion_witness:
  "mastermind_calculate_ek_risk mastermind_init (defuse_view 1)
     = mastermind_cushion 1 * mastermind_calculate_ek_risk mastermind_init (without_defuse (defuse_view 1))
   \<and> mastermind_calculate_ek_risk (mastermind_init\<lparr>m_known_top_cards := Some [SKIP, EXPLODING]\<rparr>)
        (defuse_view 1)
     = mastermind_calculate_ek_risk (mastermind_init\<lparr>m_known_top_cards := Some [SKIP, EXPLODING]\<rparr>)
        (without_defuse (defuse_view 1))
   \<and> aaron_calculate_ek_risk aaron_init (defuse_view 1)
     = 6 / 10 * aaron_calculate_ek_risk aaron_init (without_defuse (defuse_view 1))
   \<and> aaron_calculate_ek_risk (aaron_init\<lparr>a_known_top_cards := Some [SKIP]\<rparr>) (defuse_view 1)
     = aaron_calculate_ek_risk (aaron_init\<lparr>a_known_top_cards := Some [SKIP]\<rparr>)
        (without_defuse (defuse_view 1))
   \<and> mastermind_cushion 2 < mastermind_cushion 1
   \<and> mastermind_cushion 3 = 3 / 10"
proof -
  have k1: "1 \<le> count_cards_of_type (defuse_view 1) DEFUSE" by simp
  have k3: "1 \<le> count_cards_of_type (defuse_view 3) DEFUSE" by simp
  have blind: "EXPLODING \<notin> set (visible_cards (m_known_top_cards mastermind_init))"
    "\<not> truthy (a_known_top_cards aaron_init)"
    by (simp_all add: visible_cards_def truthy_def mastermind_init_def aaron_init_def)
  have peeked:
    "EXPLODING \<in> set (visible_cards (m_known_top_cards
        (mastermind_init\<lparr>m_known_top_cards := Some [SKIP, EXPLODING]\<rparr>)))"
    "truthy (a_known_top_cards (aaron_init\<lparr>a_known_top_cards := Some [SKIP]\<rparr>))"
    by (simp_all add: visible_cards_def truthy_def)
  show ?thesis
    using neutralizer_cushion [OF k1, of mastermind_init aaron_init 2]
      neutralizer_cushion [OF k1, of "mastermind_init\<lparr>m_known_top_cards := Some [SKIP, EXPLODING]\<rparr>"
        "aaron_init\<lparr>a_known_top_cards := Some [SKIP]\<rparr>" 2]
      neutralizer_cushion [OF k3, of mastermind_init aaron_init 3]
      blind peeked
    by simp
qed

text \<open>
  The claim as the spec words it fails: with three and with four neutralizers mastermind's
  factor is the same \<open>0.3\<close>, so it does not strictly decrease; and with a hazard known on
  top the returned risk is the cushion-free risk itself (factor \<open>1\<close>).
\<close>

theorem neutralizer_cushion_counterexample:
  "count_cards_of_type (defuse_view 3) DEFUSE = 3
   \<and> count_cards_of_type (defuse_view 4) DEFUSE = 4
   \<and> mastermind_calculate_ek_risk mastermind_init (without_defuse (defuse_view 3)) = 3 / 20
   \<and> mastermind_calculate_ek_risk mastermind_init (without_defuse (defuse_view 4)) = 3 / 20
   \<and> mastermind_calculate_ek_risk mastermind_init (defuse_view 3) = 3 / 10 * (3 / 20)
   \<and> mastermind_calculate_ek_risk mastermind_init (defuse_view 4) = 3 / 10 * (3 / 20)
   \<and> count_cards_of_type (defuse_view 1) DEFUSE = 1
   \<and> mastermind_calculate_ek_risk (mastermind_init\<lparr>m_known_top_cards := Some [EXPLODING]\<rparr>)
        (without_defuse (defuse_view 1)) = 1
   \<and> mastermind_calculate_ek_risk (mastermind_init\<lparr>m_known_top_cards := Some [EXPLODING]\<rparr>)
        (defuse_view 1) = 1"
proof -
  have order: "turn_order (defuse_view n) = [''me'', ''p1'', ''p2'', ''p3'']" for n
    by (simp add: defuse_view_def sample_view_def)
  show ?thesis
    by (simp add: mastermind_calculate_ek_risk_def Let_def mastermind_init_def players_or_def
        count_without_defuse without_defuse_fields mastermind_cushion_def order)
qed

section \<open>Properties of the knowledge tracker\<close>

lemma aaron_later_steps_known:
  "a_known_top_cards (aaron_on_played e v s) = a_known_top_cards s"
  "a_known_top_cards (aaron_on_eliminated e s) = a_known_top_cards s"
  "a_known_top_cards (aaron_on_ek_drawn e v s) = a_known_top_cards s"
  by (simp_all add: aaron_on_played_def aaron_on_eliminated_def aaron_on_ek_drawn_def Let_def
      split: option.splits)

lemma mm_update_known:
  "m_known_top_cards (mastermind_update_opponent_model pid s) = m_known_top_cards s"
  by (simp add: mastermind_update_opponent_model_def Let_def)

lemma mm_later_steps_known:
  "m_known_top_cards (mastermind_on_hand_size e v s) = m_known_top_cards s"
  "m_known_top_cards (mastermind_on_defuse_used e v s) = m_known_top_cards s"
  "m_known_top_cards (mastermind_on_played e v s) = m_known_top_cards s"
  "m_known_top_cards (mastermind_on_eliminated e s) = m_known_top_cards s"
  "m_known_top_cards (mastermind_on_ek_drawn e s) = m_known_top_cards s"
  by (simp_all add: mastermind_on_hand_size_def mastermind_on_defuse_used_def
      mastermind_on_played_def mastermind_on_eliminated_def mastermind_on_ek_drawn_def
      mm_update_known Let_def split: option.splits)

lemma aaron_known_after_event:
  "event_type e \<noteq> BOT_CHAT \<Longrightarrow>
   a_known_top_cards (aaron_on_event e v s)
     = a_known_top_cards (aaron_on_drawn e (aaron_on_shuffled e (aaron_on_peeked e v s)))"
  by (simp add: aaron_on_event_def aaron_later_steps_known)

lemma mm_known_after_event:
  "event_type e \<noteq> BOT_CHAT \<Longrightarrow>
   m_known_top_cards (mastermind_on_event e v s)
     = m_known_top_cards (mastermind_on_drawn e (mastermind_on_shuffled e (mastermind_on_peeked e v s)))"
  by (simp add: mastermind_on_event_def mm_later_steps_known)

text \<open>
  Claim C5. After aaron's and mastermind's \<open>on_event\<close> have processed a deck-reshuffled
  or a hazard-inserted event, the known-top-of-deck sequence is cleared (\<open>None\<close>), whatever
  it was before.
\<close>

theorem reshuffle_clears_known_top:
  assumes "event_type e = DECK_SHUFFLED \<or> event_type e = EXPLODING_KITTEN_INSERTED"
  shows "a_known_top_cards (aaron_on_event e v sa) = None
       \<and> m_known_top_cards (mastermind_on_event e v sm) = None"
proof -
  have nc: "event_type e \<noteq> BOT_CHAT" and nd: "event_type e \<noteq> CARD_DRAWN"
    using assms by auto
  have "a_known_top_cards (aaron_on_event e v sa) = None"
    using assms nd by (auto simp: aaron_known_after_event [OF nc] aaron_on_drawn_def aaron_on_shuffled_def)
  moreover have "m_known_top_cards (mastermind_on_event e v sm) = None"
    using assms nd by (auto simp: mm_known_after_event [OF nc] mastermind_on_drawn_def mastermind_on_shuffled_def)
  ultimately show ?thesis by simp
qed

theorem reshuffle_clears_known_top_witness:
  "a_known_top_cards (aaron_on_event (sample_event DECK_SHUFFLED ''p1'') sample_view
      (aaron_init\<lparr>a_known_top_cards := Some [SKIP, EXPLODING]\<rparr>)) = None
   \<and> m_known_top_cards (mastermind_on_event (sample_event EXPLODING_KITTEN_INSERTED ''me'') sample_view
      (mastermind_init\<lparr>m_known_top_cards := Some [SKIP, EXPLODING]\<rparr>)) = None"
  using reshuffle_clears_known_top [of "sample_event DECK_SHUFFLED ''p1''" sample_view
      "aaron_init\<lparr>a_known_top_cards := Some [SKIP, EXPLODING]\<rparr>"
      "mastermind_init\<lparr>m_known_top_cards := Some [SKIP, EXPLODING]\<rparr>"]
    reshuffle_clears_known_top [of "sample_event EXPLODING_KITTEN_INSERTED ''me''" sample_view
      "aaron_init\<lparr>a_known_top_cards := Some [SKIP, EXPLODING]\<rparr>"
      "mastermind_init\<lparr>m_known_top_cards := Some [SKIP, EXPLODING]\<rparr>"]
  by (simp add: sample_event_def)

lemma tft_later_steps_peeked:
  "t_last_peeked_cards (tft_on_game_start e v s) = t_last_peeked_cards s"
  "t_last_peeked_cards (tft_on_played e v s) = t_last_peeked_cards s"
  "t_last_peeked_cards (tft_on_eliminated e s) = t_last_peeked_cards s"
  "t_last_peeked_cards (tft_on_shuffled e s) = t_last_peeked_cards s"
  "t_last_peeked_cards (tft_on_ek_drawn e s) = t_last_peeked_cards s"
  by (simp_all add: tft_on_game_start_def tft_on_played_def tft_on_eliminated_def
      tft_on_shuffled_def tft_on_ek_drawn_def Let_def split: option.splits)

lemma tft_on_peeked_cards:
  "t_last_peeked_cards (tft_on_peeked e v s)
     = (if event_type e = CARDS_PEEKED \<and> player_id e = Some (my_id v)
        then get_card_types e else t_last_peeked_cards s)"
  by (simp add: tft_on_peeked_def Let_def split: list.splits)

lemma tft_peeked_after_event:
  "event_type e \<noteq> BOT_CHAT \<Longrightarrow>
   t_last_peeked_cards (tft_on_event e v s)
     = (if event_type e = CARDS_PEEKED \<and> player_id e = Some (my_id v)
        then get_card_types e else t_last_peeked_cards s)"
  by (simp add: tft_on_event_def tft_later_steps_peeked tft_on_peeked_cards)

text \<open>
  Claim C6. A cards-peeked event whose acting player is not the agent leaves the known-top
  sequence as it was (aaron's \<open>_known_top_cards\<close>, tft's \<open>_last_peeked_cards\<close>); one
  addressed to the agent replaces it with the revealed sequence, taken as it is.
\<close>

theorem peek_by_other_keeps_known_top:
  assumes "event_type e = CARDS_PEEKED"
  shows "(player_id e \<noteq> Some (my_id v) \<longrightarrow>
            a_known_top_cards (aaron_on_event e v sa) = a_known_top_cards sa
          \<and> t_last_peeked_cards (tft_on_event e v st) = t_last_peeked_cards st)
       \<and> (player_id e = Some (my_id v) \<longrightarrow>
            a_known_top_cards (aaron_on_event e v sa) = Some (get_card_types e)
          \<and> t_last_peeked_cards (tft_on_event e v st) = get_card_types e)"
proof -
  have nc: "event_type e \<noteq> BOT_CHAT" using assms by simp
  have a: "a_known_top_cards (aaron_on_event e v sa)
      = (if player_id e = Some (my_id v) then Some (get_card_types e) else a_known_top_cards sa)"
    using assms
    by (simp add: aaron_known_after_event [OF nc] aaron_on_drawn_def aaron_on_shuffled_def
        aaron_on_peeked_def)
  have t: "t_last_peeked_cards (tft_on_event e v st)
      = (if player_id e = Some (my_id v) then get_card_types e else t_last_peeked_cards st)"
    using assms by (simp add: tft_peeked_after_event [OF nc])
  show ?thesis using a t by simp
qed

theorem peek_by_other_keeps_known_top_witness:
  "a_known_top_cards (aaron_on_event
      ((sample_event CARDS_PEEKED ''p1'')\<lparr>data_card_types := Some [EXPLODING, SKIP]\<rparr>) sample_view
      (aaron_init\<lparr>a_known_top_cards := Some [SKIP]\<rparr>)) = Some [SKIP]
   \<and> t_last_peeked_cards (tft_on_event
      ((sample_event CARDS_PEEKED ''p1'')\<lparr>data_card_types := Some [EXPLODING, SKIP]\<rparr>) sample_view
      (tft_init\<lparr>t_last_peeked_cards := [SKIP]\<rparr>)) = [SKIP]
   \<and> a_known_top_cards (aaron_on_event
      ((sample_event CARDS_PEEKED ''me'')\<lparr>data_card_types := Some [EXPLODING, SKIP]\<rparr>) sample_view
      (aaron_init\<lparr>a_known_top_cards := Some [SKIP]\<rparr>)) = Some [EXPLODING, SKIP]
   \<and> t_last_peeked_cards (tft_on_event
      ((sample_event CARDS_PEEKED ''me'')\<lparr>data_card_types := Some [EXPLODING, SKIP]\<rparr>) sample_view
      (tft_init\<lparr>t_last_peeked_cards := [SKIP]\<rparr>)) = [EXPLODING, SKIP]"
  using peek_by_other_keeps_known_top [of "(sample_event CARDS_PEEKED ''p1'')\<lparr>data_card_types := Some [EXPLODING, SKIP]\<rparr>"
      sample_view "aaron_init\<lparr>a_known_top_cards := Some [SKIP]\<rparr>"
      "tft_init\<lparr>t_last_peeked_cards := [SKIP]\<rparr>"]
    peek_by_other_keeps_known_top [of "(sample_event CARDS_PEEKED ''me'')\<lparr>data_card_types := Some [EXPLODING, SKIP]\<rparr>"
      sample_view "aaron_init\<lparr>a_known_top_cards := Some [SKIP]\<rparr>"
      "tft_init\<lparr>t_last_peeked_cards := [SKIP]\<rparr>"]
  by (simp add: sample_event_def sample_view_def get_card_types_def)

section \<open>Properties of the opponent model\<close>

lemma aaron_prior:
  "size (counter_of (a_opponent_card_counts s) pid) = 0 \<Longrightarrow> aaron_simulate_opponent s pid = (3 / 10, 2 / 10)"
  by (simp add: aaron_simulate_opponent_def Let_def)

lemma aaron_observed:
  assumes "0 < size (counter_of (a_opponent_card_counts s) pid)"
  shows "snd (aaron_simulate_opponent s pid)
      = min (7 / 10) (real (count (counter_of (a_opponent_card_counts s) pid) NOPE)
                        / real (size (counter_of (a_opponent_card_counts s) pid)))"
    and "0 \<le> fst (aaron_simulate_opponent s pid)"
    and "fst (aaron_simulate_opponent s pid) \<le> 8 / 10"
proof -
  let ?h = "counter_of (a_opponent_card_counts s) pid"
  have ne: "?h \<noteq> {#}" using assms by auto
  have total: "max 1 (int (size ?h)) = int (size ?h)" using assms by simp
  have pair: "aaron_simulate_opponent s pid
      = (min (8 / 10) (real_of_int (int (count ?h SKIP) + int (count ?h ATTACK) + int (count ?h SHUFFLE))
                         / real_of_int (int (size ?h))),
         min (7 / 10) (real_of_int (int (count ?h NOPE)) / real_of_int (int (size ?h))))"
    using ne by (simp add: aaron_simulate_opponent_def Let_def total del: of_int_add)
  show "snd (aaron_simulate_opponent s pid) = min (7 / 10) (real (count ?h NOPE) / real (size ?h))"
    by (simp add: pair)
  show "0 \<le> fst (aaron_simulate_opponent s pid)"
    by (simp add: pair)
  show "fst (aaron_simulate_opponent s pid) \<le> 8 / 10"
    unfolding pair fst_conv by (rule min.cobounded1)
qed


lemma mm_model_observed:
  assumes "0 < size (counter_of (m_opponent_card_counts s) pid)"
  shows "m_opponent_defense_prob (mastermind_update_opponent_model pid s) pid
      = Some (min (9 / 10)
          (real (count (counter_of (m_opponent_card_counts s) pid) SKIP
               + count (counter_of (m_opponent_card_counts s) pid) ATTACK
               + count (counter_of (m_opponent_card_counts s) pid) SHUFFLE
               + count (counter_of (m_opponent_card_counts s) pid) DEFUSE)
           / real (size (counter_of (m_opponent_card_counts s) pid))))"
    and "m_opponent_nope_prob (mastermind_update_opponent_model pid s) pid
      = Some (min (8 / 10)
          (real (count (counter_of (m_opponent_card_counts s) pid) NOPE)
           / real (size (counter_of (m_opponent_card_counts s) pid))))"
proof -
  let ?h = "counter_of (m_opponent_card_counts s) pid"
  have ne: "?h \<noteq> {#}" using assms by auto
  show "m_opponent_defense_prob (mastermind_update_opponent_model pid s) pid
      = Some (min (9 / 10)
          (real (count ?h SKIP + count ?h ATTACK + count ?h SHUFFLE + count ?h DEFUSE)
           / real (size ?h)))"
    using ne assms by (simp add: mastermind_update_opponent_model_def Let_def)
  show "m_opponent_nope_prob (mastermind_update_opponent_model pid s) pid
      = Some (min (8 / 10) (real (count ?h NOPE) / real (size ?h)))"
    using ne assms by (simp add: mastermind_update_opponent_model_def Let_def)
qed

lemma aaron_after_skip:
  "counter_of (a_opponent_card_counts (aaron_on_event skip_played sample_view aaron_init)) ''p1'' = {#SKIP#}"
  by (simp add: aaron_on_event_def aaron_on_played_def aaron_on_eliminated_def
      aaron_on_ek_drawn_def aaron_on_drawn_def aaron_on_shuffled_def aaron_on_peeked_def
      skip_played_def sample_event_def sample_view_def aaron_init_def get_card_type_def
      counts_incr_def counter_of_def Let_def card_consts)

lemma mm_after_skip: "counter_of [''p1'' \<mapsto> {#SKIP#}] ''p1'' = {#SKIP#}"
  by (simp add: counter_of_def)

lemma skip_is_no_other:
  "SKIP \<noteq> NOPE" "SKIP \<noteq> ATTACK" "SKIP \<noteq> SHUFFLE" "SKIP \<noteq> DEFUSE"
  by (simp_all add: card_consts)

lemma aaron_defensive_exact:
  assumes "0 < size (counter_of (a_opponent_card_counts s) pid)"
    and "count (counter_of (a_opponent_card_counts s) pid) DEFUSE = 0"
  shows "fst (aaron_simulate_opponent s pid)
    = spec_defensive (8 / 10) (counter_of (a_opponent_card_counts s) pid)"
proof -
  let ?h = "counter_of (a_opponent_card_counts s) pid"
  have ne: "?h \<noteq> {#}" using assms(1) by auto
  have total: "max 1 (int (size ?h)) = int (size ?h)" using assms(1) by simp
  show ?thesis
    using ne assms(2) by (simp add: aaron_simulate_opponent_def Let_def total spec_defensive_def)
qed

lemma aaron_veto_exact:
  assumes "0 < size (counter_of (a_opponent_card_counts s) pid)"
  shows "snd (aaron_simulate_opponent s pid)
    = spec_veto (7 / 10) (counter_of (a_opponent_card_counts s) pid)"
  using aaron_observed(1) [OF assms] by (simp add: spec_veto_def)

lemma mm_update_stores:
  assumes "counter_of (m_opponent_card_counts s) pid \<noteq> {#}"
  shows "m_opponent_defense_prob (mastermind_update_opponent_model pid s)
      = (m_opponent_defense_prob s)(pid \<mapsto> spec_defensive (9 / 10) (counter_of (m_opponent_card_counts s) pid))"
    and "m_opponent_nope_prob (mastermind_update_opponent_model pid s)
      = (m_opponent_nope_prob s)(pid \<mapsto> spec_veto (8 / 10) (counter_of (m_opponent_card_counts s) pid))"
    and "counter_of (m_opponent_card_counts (mastermind_update_opponent_model pid s)) q
      = counter_of (m_opponent_card_counts s) q"
proof -
  let ?h = "counter_of (m_opponent_card_counts s) pid"
  have pos: "0 < size ?h" using assms by (simp add: nonempty_has_size)
  have total: "max 1 (int (size ?h)) = int (size ?h)" using pos by simp
  show "m_opponent_defense_prob (mastermind_update_opponent_model pid s)
      = (m_opponent_defense_prob s)(pid \<mapsto> spec_defensive (9 / 10) ?h)"
    using assms by (simp add: mastermind_update_opponent_model_def Let_def total spec_defensive_def)
  show "m_opponent_nope_prob (mastermind_update_opponent_model pid s)
      = (m_opponent_nope_prob s)(pid \<mapsto> spec_veto (8 / 10) ?h)"
    using assms by (simp add: mastermind_update_opponent_model_def Let_def total spec_veto_def)
  show "counter_of (m_opponent_card_counts (mastermind_update_opponent_model pid s)) q
      = counter_of (m_opponent_card_counts s) q"
    by (simp add: mastermind_update_opponent_model_def Let_def counter_of_def)
qed

lemma counter_incr:
  "counter_of (counts_incr c pid t) q = (if q = pid then add_mset t (counter_of c pid) else counter_of c q)"
  by (simp add: counts_incr_def counter_of_def)

lemma in_step_cong:
  assumes "in_step s" "m_opponent_card_counts s' = m_opponent_card_counts s"
    "m_opponent_defense_prob s' = m_opponent_defense_prob s"
    "m_opponent_nope_prob s' = m_opponent_nope_prob s"
  shows "in_step s'"
  using assms by (simp add: in_step_def)

lemma in_step_played: "in_step s \<Longrightarrow> in_step (mastermind_on_played e v s)"
proof -
  assume I: "in_step s"
  show ?thesis
  proof (cases "event_type e = CARD_PLAYED \<and> (\<exists>pid. player_id e = Some pid \<and> pid \<noteq> []
      \<and> pid \<noteq> my_id v \<and> pid \<in> set (other_players v))")
    case False
    then have "mastermind_on_played e v s = s"
      by (auto simp: mastermind_on_played_def split: option.splits)
    then show ?thesis using I by simp
  next
    case True
    then obtain pid where pid: "player_id e = Some pid" "pid \<noteq> []" "pid \<noteq> my_id v"
      "pid \<in> set (other_players v)" and ev: "event_type e = CARD_PLAYED" by auto
    let ?s1 = "s\<lparr>m_opponent_card_history :=
                    history_append (m_opponent_card_history s) pid (get_card_type e),
                 m_opponent_card_counts :=
                    counts_incr (m_opponent_card_counts s) pid (get_card_type e)\<rparr>"
    have eq: "mastermind_on_played e v s = mastermind_update_opponent_model pid ?s1"
      using pid ev by (simp add: mastermind_on_played_def)
    have c1: "counter_of (m_opponent_card_counts ?s1) q
        = (if q = pid then add_mset (get_card_type e) (counter_of (m_opponent_card_counts s) pid)
           else counter_of (m_opponent_card_counts s) q)" for q
      by (simp add: counter_incr)
    have ne: "counter_of (m_opponent_card_counts ?s1) pid \<noteq> {#}"
      by (simp add: counter_incr)
    note st = mm_update_stores [OF ne]
    show ?thesis
      unfolding eq in_step_def
      using I by (auto simp: st counter_incr in_step_def)
  qed
qed


lemma mm_other_steps_model:
  "m_opponent_card_counts (mastermind_on_hand_size e v s) = m_opponent_card_counts s"
  "m_opponent_defense_prob (mastermind_on_hand_size e v s) = m_opponent_defense_prob s"
  "m_opponent_nope_prob (mastermind_on_hand_size e v s) = m_opponent_nope_prob s"
  "m_opponent_card_counts (mastermind_on_defuse_used e v s) = m_opponent_card_counts s"
  "m_opponent_defense_prob (mastermind_on_defuse_used e v s) = m_opponent_defense_prob s"
  "m_opponent_nope_prob (mastermind_on_defuse_used e v s) = m_opponent_nope_prob s"
  "m_opponent_card_counts (mastermind_on_eliminated e s) = m_opponent_card_counts s"
  "m_opponent_defense_prob (mastermind_on_eliminated e s) = m_opponent_defense_prob s"
  "m_opponent_nope_prob (mastermind_on_eliminated e s) = m_opponent_nope_prob s"
  "m_opponent_card_counts (mastermind_on_ek_drawn e s) = m_opponent_card_counts s"
  "m_opponent_defense_prob (mastermind_on_ek_drawn e s) = m_opponent_defense_prob s"
  "m_opponent_nope_prob (mastermind_on_ek_drawn e s) = m_opponent_nope_prob s"
  "m_opponent_card_counts (mastermind_on_drawn e s) = m_opponent_card_counts s"
  "m_opponent_defense_prob (mastermind_on_drawn e s) = m_opponent_defense_prob s"
  "m_opponent_nope_prob (mastermind_on_drawn e s) = m_opponent_nope_prob s"
  "m_opponent_card_counts (mastermind_on_shuffled e s) = m_opponent_card_counts s"
  "m_opponent_defense_prob (mastermind_on_shuffled e s) = m_opponent_defense_prob s"
  "m_opponent_nope_prob (mastermind_on_shuffled e s) = m_opponent_nope_prob s"
  "m_opponent_card_counts (mastermind_on_peeked e v s) = m_opponent_card_counts s"
  "m_opponent_defense_prob (mastermind_on_peeked e v s) = m_opponent_defense_prob s"
  "m_opponent_nope_prob (mastermind_on_peeked e v s) = m_opponent_nope_prob s"
  by (simp_all add: mastermind_on_hand_size_def mastermind_on_defuse_used_def
      mastermind_on_eliminated_def mastermind_on_ek_drawn_def mastermind_on_drawn_def
      mastermind_on_shuffled_def mastermind_on_peeked_def Let_def split: option.splits)

lemma in_step_event: "in_step s \<Longrightarrow> in_step (mastermind_on_event e v s)"
proof -
  assume I: "in_step s"
  let ?s5 = "mastermind_on_eliminated e (mastermind_on_ek_drawn e (mastermind_on_drawn e
               (mastermind_on_shuffled e (mastermind_on_peeked e v s))))"
  have "in_step ?s5"
    by (rule in_step_cong [OF I]) (simp_all add: mm_other_steps_model)
  then have P: "in_step (mastermind_on_played e v ?s5)"
    by (rule in_step_played)
  have "in_step (mastermind_on_hand_size e v (mastermind_on_defuse_used e v
      (mastermind_on_played e v ?s5)))"
    by (rule in_step_cong [OF P]) (simp_all add: mm_other_steps_model)
  then show ?thesis using I by (simp add: mastermind_on_event_def)
qed

lemma in_step_init: "in_step mastermind_init"
  by (simp add: in_step_def mastermind_init_def counter_of_def)

lemma in_step_run: "in_step s \<Longrightarrow> in_step (mastermind_run evs s)"
proof (induction evs arbitrary: s)
  case Nil
  then show ?case by simp
next
  case (Cons ev evs)
  obtain e v where ev: "ev = (e, v)" by (cases ev)
  show ?case using Cons.IH [OF in_step_event [OF Cons.prems, of e v]] by (simp add: ev)
qed

lemma mm_run_model:
  fixes evs pid
  defines "s \<equiv> mastermind_run evs mastermind_init"
  defines "h \<equiv> counter_of (m_opponent_card_counts s) pid"
  shows "size h = 0 \<Longrightarrow> m_opponent_defense_prob s pid = None \<and> m_opponent_nope_prob s pid = None
      \<and> opponent_defense_prob_get s pid = 5 / 10"
    and "0 < size h \<Longrightarrow> m_opponent_defense_prob s pid = Some (spec_defensive (9 / 10) h)
      \<and> m_opponent_nope_prob s pid = Some (spec_veto (8 / 10) h)
      \<and> opponent_defense_prob_get s pid = spec_defensive (9 / 10) h"
proof -
  have I: "in_step s" unfolding s_def by (rule in_step_run [OF in_step_init])
  show "size h = 0 \<Longrightarrow> m_opponent_defense_prob s pid = None \<and> m_opponent_nope_prob s pid = None
      \<and> opponent_defense_prob_get s pid = 5 / 10"
    using I by (simp add: in_step_def h_def opponent_defense_prob_get_def)
  show "0 < size h \<Longrightarrow> m_opponent_defense_prob s pid = Some (spec_defensive (9 / 10) h)
      \<and> m_opponent_nope_prob s pid = Some (spec_veto (8 / 10) h)
      \<and> opponent_defense_prob_get s pid = spec_defensive (9 / 10) h"
    using I by (auto simp: in_step_def h_def opponent_defense_prob_get_def)
qed

text \<open>
  Claim C7, as the code has it. For an opponent with no observed play, aaron's
  \<open>simulate_opponent\<close> returns the prior \<open>(0.3, 0.2)\<close>; mastermind's tracker, run over any
  sequence of events from its initial state, has stored no probability for that opponent,
  and its policy reads the defensive probability \<open>0.5\<close> for it. For an opponent with at
  least one observed play, mastermind's tracker has stored the defensive probability
  (skip + redirect + reshuffle + neutralizer counts) over the total, capped at \<open>0.9\<close>,
  which is what its policy reads, and the veto probability veto count over total, capped at
  \<open>0.8\<close>; both are what \<open>_update_opponent_model\<close> stores. Aaron's model returns the veto
  probability veto count over total, capped at \<open>0.7\<close>, and a defensive probability in
  \<open>[0, 0.8]\<close> which, when no neutralizer play of that opponent has been observed, is
  (skip + redirect + reshuffle + neutralizer counts) over the total, capped at \<open>0.8\<close>.
\<close>

theorem opponent_model_profile:
  "(size (counter_of (a_opponent_card_counts sa) pid) = 0 \<longrightarrow>
      aaron_simulate_opponent sa pid = (3 / 10, 2 / 10))
   \<and> (0 < size (counter_of (a_opponent_card_counts sa) pid) \<longrightarrow>
        snd (aaron_simulate_opponent sa pid)
          = spec_veto (7 / 10) (counter_of (a_opponent_card_counts sa) pid)
      \<and> 0 \<le> fst (aaron_simulate_opponent sa pid)
      \<and> fst (aaron_simulate_opponent sa pid) \<le> 8 / 10
      \<and> (count (counter_of (a_opponent_card_counts sa) pid) DEFUSE = 0 \<longrightarrow>
           fst (aaron_simulate_opponent sa pid)
             = spec_defensive (8 / 10) (counter_of (a_opponent_card_counts sa) pid)))
   \<and> (size (counter_of (m_opponent_card_counts (mastermind_run evs mastermind_init)) pid) = 0 \<longrightarrow>
        m_opponent_defense_prob (mastermind_run evs mastermind_init) pid = None
      \<and> m_opponent_nope_prob (mastermind_run evs mastermind_init) pid = None
      \<and> opponent_defense_prob_get (mastermind_run evs mastermind_init) pid = 5 / 10)
   \<and> (0 < size (counter_of (m_opponent_card_counts (mastermind_run evs mastermind_init)) pid) \<longrightarrow>
        m_opponent_defense_prob (mastermind_run evs mastermind_init) pid
          = Some (spec_defensive (9 / 10)
              (counter_of (m_opponent_card_counts (mastermind_run evs mastermind_init)) pid))
      \<and> m_opponent_nope_prob (mastermind_run evs mastermind_init) pid
          = Some (spec_veto (8 / 10)
              (counter_of (m_opponent_card_counts (mastermind_run evs mastermind_init)) pid))
      \<and> opponent_defense_prob_get (mastermind_run evs mastermind_init) pid
          = spec_defensive (9 / 10)
              (counter_of (m_opponent_card_counts (mastermind_run evs mastermind_init)) pid))
   \<and> (0 < size (counter_of (m_opponent_card_counts sm) pid) \<longrightarrow>
        m_opponent_defense_prob (mastermind_update_opponent_model pid sm) pid
          = Some (spec_defensive (9 / 10) (counter_of (m_opponent_card_counts sm) pid))
      \<and> m_opponent_nope_prob (mastermind_update_opponent_model pid sm) pid
          = Some (spec_veto (8 / 10) (counter_of (m_opponent_card_counts sm) pid)))"
proof -
  have upd: "0 < size (counter_of (m_opponent_card_counts sm) pid) \<Longrightarrow>
        m_opponent_defense_prob (mastermind_update_opponent_model pid sm) pid
          = Some (spec_defensive (9 / 10) (counter_of (m_opponent_card_counts sm) pid))
      \<and> m_opponent_nope_prob (mastermind_update_opponent_model pid sm) pid
          = Some (spec_veto (8 / 10) (counter_of (m_opponent_card_counts sm) pid))"
    using mm_model_observed [of sm pid] by (simp add: spec_defensive_def spec_veto_def)
  show ?thesis
    using aaron_prior [of sa pid] aaron_observed(2,3) [of sa pid] aaron_veto_exact [of sa pid]
      aaron_defensive_exact [of sa pid] mm_run_model [of evs pid] upd
    by blast
qed

lemma mm_counter_after_play:
  assumes "event_type e = CARD_PLAYED" "player_id e = Some pid" "pid \<noteq> []" "pid \<noteq> my_id v"
    "pid \<in> set (other_players v)"
  shows "counter_of (m_opponent_card_counts (mastermind_on_event e v s)) pid
    = add_mset (get_card_type e) (counter_of (m_opponent_card_counts s) pid)"
proof -
  let ?s5 = "mastermind_on_eliminated e (mastermind_on_ek_drawn e (mastermind_on_drawn e
               (mastermind_on_shuffled e (mastermind_on_peeked e v s))))"
  let ?s6 = "?s5\<lparr>m_opponent_card_history :=
                    history_append (m_opponent_card_history ?s5) pid (get_card_type e),
                  m_opponent_card_counts :=
                    counts_incr (m_opponent_card_counts ?s5) pid (get_card_type e)\<rparr>"
  have c5: "m_opponent_card_counts ?s5 = m_opponent_card_counts s"
    by (simp add: mm_other_steps_model)
  have played: "mastermind_on_played e v ?s5 = mastermind_update_opponent_model pid ?s6"
    using assms by (simp add: mastermind_on_played_def)
  have "counter_of (m_opponent_card_counts (mastermind_on_event e v s)) pid
      = counter_of (m_opponent_card_counts (mastermind_on_played e v ?s5)) pid"
    using assms(1) by (simp add: mastermind_on_event_def mm_other_steps_model)
  also have "\<dots> = counter_of (m_opponent_card_counts ?s6) pid"
    unfolding played by (rule mm_update_stores(3)) (simp add: counter_incr)
  also have "\<dots> = add_mset (get_card_type e) (counter_of (m_opponent_card_counts s) pid)"
    by (simp add: counter_incr c5)
  finally show ?thesis .
qed

lemma mm_event_skip:
  "counter_of (m_opponent_card_counts (mastermind_on_event skip_played sample_view mastermind_init))
     ''p1'' = {#SKIP#}"
proof -
  have "counter_of (m_opponent_card_counts
        (mastermind_on_event skip_played sample_view mastermind_init)) ''p1''
      = add_mset (get_card_type skip_played)
          (counter_of (m_opponent_card_counts mastermind_init) ''p1'')"
    by (rule mm_counter_after_play)
      (simp_all add: skip_played_def sample_event_def sample_view_def)
  then show ?thesis
    by (simp add: get_card_type_def skip_played_def mastermind_init_def counter_of_def)
qed

lemma spec_after_skip:
  "spec_defensive cap {#SKIP#} = min cap 1" "spec_veto cap {#SKIP#} = min cap 0"
  by (simp_all add: spec_defensive_def spec_veto_def skip_is_no_other)

theorem opponent_model_profile_witness:
  "aaron_simulate_opponent aaron_init ''p1'' = (3 / 10, 2 / 10)
   \<and> aaron_simulate_opponent (aaron_on_event skip_played sample_view aaron_init) ''p1''
       = (8 / 10, 0)
   \<and> m_opponent_defense_prob (mastermind_run [] mastermind_init) ''p1'' = None
   \<and> opponent_defense_prob_get (mastermind_run [] mastermind_init) ''p1'' = 5 / 10
   \<and> m_opponent_defense_prob (mastermind_run [(skip_played, sample_view)] mastermind_init) ''p1''
       = Some (9 / 10)
   \<and> m_opponent_nope_prob (mastermind_run [(skip_played, sample_view)] mastermind_init) ''p1''
       = Some 0
   \<and> m_opponent_defense_prob (mastermind_update_opponent_model ''p1''
        (mastermind_init\<lparr>m_opponent_card_counts := [''p1'' \<mapsto> {#SKIP#}]\<rparr>)) ''p1'' = Some (9 / 10)"
proof -
  have zero: "size (counter_of (a_opponent_card_counts aaron_init) ''p1'') = 0"
    "size (counter_of (m_opponent_card_counts (mastermind_run [] mastermind_init)) ''p1'') = 0"
    by (simp_all add: counter_of_def aaron_init_def mastermind_init_def)
  have one: "0 < size (counter_of (a_opponent_card_counts
        (aaron_on_event skip_played sample_view aaron_init)) ''p1'')"
    "count (counter_of (a_opponent_card_counts
        (aaron_on_event skip_played sample_view aaron_init)) ''p1'') DEFUSE = 0"
    "0 < size (counter_of (m_opponent_card_counts
        (mastermind_run [(skip_played, sample_view)] mastermind_init)) ''p1'')"
    "0 < size (counter_of (m_opponent_card_counts
        (mastermind_init\<lparr>m_opponent_card_counts := [''p1'' \<mapsto> {#SKIP#}]\<rparr>)) ''p1'')"
    by (simp_all add: aaron_after_skip mm_event_skip mm_after_skip skip_is_no_other)
  have a0: "aaron_simulate_opponent aaron_init ''p1'' = (3 / 10, 2 / 10)"
    and m0: "m_opponent_defense_prob (mastermind_run [] mastermind_init) ''p1'' = None"
      "opponent_defense_prob_get (mastermind_run [] mastermind_init) ''p1'' = 5 / 10"
    using opponent_model_profile [of aaron_init "''p1''" "[]" mastermind_init] zero by blast+
  have a1: "snd (aaron_simulate_opponent (aaron_on_event skip_played sample_view aaron_init) ''p1'')
        = spec_veto (7 / 10) {#SKIP#}"
      "fst (aaron_simulate_opponent (aaron_on_event skip_played sample_view aaron_init) ''p1'')
        = spec_defensive (8 / 10) {#SKIP#}"
    and m1: "m_opponent_defense_prob (mastermind_run [(skip_played, sample_view)] mastermind_init) ''p1''
        = Some (spec_defensive (9 / 10) {#SKIP#})"
      "m_opponent_nope_prob (mastermind_run [(skip_played, sample_view)] mastermind_init) ''p1''
        = Some (spec_veto (8 / 10) {#SKIP#})"
    and u1: "m_opponent_defense_prob (mastermind_update_opponent_model ''p1''
        (mastermind_init\<lparr>m_opponent_card_counts := [''p1'' \<mapsto> {#SKIP#}]\<rparr>)) ''p1''
        = Some (spec_defensive (9 / 10) {#SKIP#})"
    using opponent_model_profile [of "aaron_on_event skip_played sample_view aaron_init" "''p1''"
        "[(skip_played, sample_view)]"
        "mastermind_init\<lparr>m_opponent_card_counts := [''p1'' \<mapsto> {#SKIP#}]\<rparr>"]
      one
    by (simp_all add: aaron_after_skip mm_event_skip mm_after_skip)
  have pair: "aaron_simulate_opponent (aaron_on_event skip_played sample_view aaron_init) ''p1''
      = (8 / 10, 0)"
    using a1 by (simp add: prod_eq_iff spec_after_skip)
  show ?thesis
    using a0 m0 m1 u1 pair by (simp add: spec_after_skip)
qed

lemma attack_view_fields:
  "get_cards_of_type attack_view SKIP = []" "get_cards_of_type attack_view ATTACK = [attack_card]"
  "other_players attack_view = [''p1'', ''p2'', ''p3'']" "draw_pile_count attack_view = 20"
  "card_count_of attack_view ''p1'' = 5" "card_count_of attack_view ''p2'' = 4"
  "card_count_of attack_view ''p3'' = 6"
  by (simp_all add: attack_view_def sample_view_def get_cards_of_type_def attack_card_def
      card_count_of_def card_consts)

text \<open>
  The claim as the spec words it fails. After one observed turn-skip play the count ratio
  is \<open>1\<close>, which the claim caps at \<open>0.9\<close>; aaron's model returns \<open>0.8\<close>. And for an
  opponent never observed mastermind holds no prior: nothing is stored, and the policy
  reads \<open>0.5\<close>, not \<open>0.3\<close>, so that with a redirect-turn card in hand and twenty cards in the
  draw pile \<open>_play_defensive\<close> passes, where a stored \<open>0.3\<close> would make it play the card.
\<close>

theorem opponent_model_counterexample:
  "counter_of (a_opponent_card_counts (aaron_on_event skip_played sample_view aaron_init)) ''p1''
     = {#SKIP#}
   \<and> fst (aaron_simulate_opponent (aaron_on_event skip_played sample_view aaron_init) ''p1'')
     \<noteq> spec_defensive (9 / 10) {#SKIP#}
   \<and> counter_of (m_opponent_card_counts mastermind_init) ''p2'' = {#}
   \<and> m_opponent_defense_prob mastermind_init ''p2'' = None
   \<and> m_opponent_nope_prob mastermind_init ''p2'' = None
   \<and> opponent_defense_prob_get mastermind_init ''p2'' \<noteq> 3 / 10
   \<and> mastermind_play_defensive mastermind_init attack_view = None
   \<and> mastermind_play_defensive
        (mastermind_init\<lparr>m_opponent_defense_prob := [''p2'' \<mapsto> 3 / 10]\<rparr>) attack_view
       = Some (PlayCardAction attack_card (Some ''p2''))"
proof -
  have a: "fst (aaron_simulate_opponent (aaron_on_event skip_played sample_view aaron_init) ''p1'')
      = 8 / 10"
    by (simp add: aaron_after_skip aaron_simulate_opponent_def Let_def skip_is_no_other)
  have init: "counter_of (m_opponent_card_counts mastermind_init) ''p2'' = {#}"
    "m_opponent_defense_prob mastermind_init ''p2'' = None"
    "m_opponent_nope_prob mastermind_init ''p2'' = None"
    "opponent_defense_prob_get mastermind_init ''p2'' = 5 / 10"
    by (simp_all add: mastermind_init_def counter_of_def opponent_defense_prob_get_def)
  have weakest: "mastermind_choose_weakest_target s attack_view = Some ''p2''"
    if "m_opponent_defuses_used s = Map.empty" for s
    using that
    by (simp add: mastermind_choose_weakest_target_def attack_view_fields
        opponent_defuses_used_get_def py_min_def Let_def)
  have d1: "mastermind_play_defensive mastermind_init attack_view = None"
    using weakest [of mastermind_init] init(4)
    by (simp add: mastermind_play_defensive_def attack_view_fields Let_def mastermind_init_def)
  have d2: "mastermind_play_defensive
        (mastermind_init\<lparr>m_opponent_defense_prob := [''p2'' \<mapsto> 3 / 10]\<rparr>) attack_view
       = Some (PlayCardAction attack_card (Some ''p2''))"
    using weakest [of "mastermind_init\<lparr>m_opponent_defense_prob := [''p2'' \<mapsto> 3 / 10]\<rparr>"]
    by (simp add: mastermind_play_defensive_def attack_view_fields Let_def mastermind_init_def
        opponent_defense_prob_get_def)
  show ?thesis
    using a init d1 d2 by (simp add: aaron_after_skip spec_after_skip)
qed

section \<open>Properties of the disposal policy\<close>

lemma my_bot_position:
  "2 \<le> n \<Longrightarrow> 1 \<le> my_bot_choose_defuse_position n \<and> my_bot_choose_defuse_position n \<le> n - 1"
  "n \<le> 1 \<Longrightarrow> my_bot_choose_defuse_position n = 1"
  by (auto simp: my_bot_choose_defuse_position_def)

lemma aaron_position:
  "aaron_choose_defuse_position n \<noteq> {}"
  "1 \<le> n \<Longrightarrow> p \<in> aaron_choose_defuse_position n \<Longrightarrow> 0 \<le> p \<and> p \<le> n - 1 \<and> (p = 0 \<longrightarrow> n \<le> 1)"
  by (auto simp: aaron_choose_defuse_position_def randint_def Let_def split: if_splits)

lemma three_quarters: "\<lfloor>real_of_int n * (75 / 100)\<rfloor> = (3 * n) div 4"
proof -
  have "real_of_int n * (75 / 100) = real_of_int (3 * n) / real_of_int 4" by simp
  then show ?thesis by (simp only: floor_divide_of_int_eq)
qed

lemma three_quarters': "\<lfloor>real_of_int n * 3 / 4\<rfloor> = (3 * n) div 4"
  using three_quarters [of n] by simp

lemma tft_position:
  "tft_choose_defuse_position n \<noteq> {}"
  "1 \<le> n \<Longrightarrow> p \<in> tft_choose_defuse_position n \<Longrightarrow> 0 \<le> p \<and> p \<le> n - 1 \<and> (p = 0 \<longrightarrow> n \<le> 1)"
  by (auto simp: tft_choose_defuse_position_def randint_def Let_def three_quarters' split: if_splits)

text \<open>
  Claim C9, as the code has it. For a draw pile of size \<open>n \<ge> 1\<close>, aaron's and tft's
  \<open>choose_defuse_position\<close> always return an index, every index they may return lies in
  \<open>[0, n - 1]\<close>, and it is \<open>0\<close> only for \<open>n \<le> 1\<close>. The one of \<open>my_bot.py\<close> returns an index
  in \<open>[1, n - 1]\<close> for every \<open>n \<ge> 2\<close> and never returns \<open>0\<close>: for \<open>n \<le> 1\<close> it returns \<open>1\<close>.
\<close>

theorem defuse_position_range:
  "(2 \<le> n \<longrightarrow> 1 \<le> my_bot_choose_defuse_position n \<and> my_bot_choose_defuse_position n \<le> n - 1)
   \<and> (n \<le> 1 \<longrightarrow> my_bot_choose_defuse_position n = 1)
   \<and> aaron_choose_defuse_position n \<noteq> {}
   \<and> tft_choose_defuse_position n \<noteq> {}
   \<and> (1 \<le> n \<and> p \<in> aaron_choose_defuse_position n \<longrightarrow>
        0 \<le> p \<and> p \<le> n - 1 \<and> (p = 0 \<longrightarrow> n \<le> 1))
   \<and> (1 \<le> n \<and> q \<in> tft_choose_defuse_position n \<longrightarrow>
        0 \<le> q \<and> q \<le> n - 1 \<and> (q = 0 \<longrightarrow> n \<le> 1))"
  using my_bot_position [of n] aaron_position(1) [of n] aaron_position(2) [of n p]
    tft_position(1) [of n] tft_position(2) [of n q]
  by blast

theorem defuse_position_range_witness:
  "my_bot_choose_defuse_position 8 = 2
   \<and> my_bot_choose_defuse_position 0 = 1
   \<and> 5 \<in> aaron_choose_defuse_position 8 \<and> 6 \<in> tft_choose_defuse_position 8
   \<and> 0 \<in> aaron_choose_defuse_position 1 \<and> 0 \<in> tft_choose_defuse_position 1"
  using defuse_position_range [where n = 8 and p = 5 and q = 6] defuse_position_range [where n = 0] defuse_position_range [where n = 1 and p = 0 and q = 0]
  by (simp add: my_bot_choose_defuse_position_def aaron_choose_defuse_position_def
      tft_choose_defuse_position_def randint_def)

text \<open>
  The claim as the spec words it fails for \<open>my_bot.py\<close> at size \<open>1\<close>: the returned index
  \<open>1\<close> is above \<open>drawPileSize - 1 = 0\<close>.
\<close>

theorem defuse_position_counterexample:
  "(1::int) \<le> 1 \<and> my_bot_choose_defuse_position 1 = 1 \<and> \<not> my_bot_choose_defuse_position 1 \<le> 1 - 1"
  by (simp add: my_bot_choose_defuse_position_def)

section \<open>Properties of the reaction evaluator\<close>

lemma react_without_nope:
  "get_cards_of_type v NOPE = [] \<Longrightarrow> my_bot_react r v e = None \<and> aaron_react r v e = None"
  by (simp add: my_bot_react_def aaron_react_def NOPE_def)

lemma react_attack_on_self:
  assumes "get_cards_of_type v NOPE = n # ns" "event_type e = CARD_PLAYED"
    "data_card_type e = Some ATTACK" "data_target_player_id e = Some (my_id v)"
  shows "my_bot_react r v e = Some (PlayCardAction n None) \<and> aaron_react r v e = Some (PlayCardAction n None)"
  using assms by (simp add: my_bot_react_def aaron_react_def get_card_type_def NOPE_def ATTACK_def)

text \<open>
  Claim C10. Without a veto card in hand, \<open>react\<close> of \<open>my_bot.py\<close> and of \<open>aaron_bot.py\<close>
  returns no action. With at least one, and a redirect-turn card played at the agent, both
  return the play of the first veto card, whatever the random source would give.
\<close>

theorem reaction_veto:
  "(get_cards_of_type v NOPE = [] \<longrightarrow> my_bot_react r v e = None \<and> aaron_react r v e = None)
   \<and> (get_cards_of_type v NOPE \<noteq> [] \<and> event_type e = CARD_PLAYED
        \<and> data_card_type e = Some ATTACK \<and> data_target_player_id e = Some (my_id v) \<longrightarrow>
        my_bot_react r v e = Some (PlayCardAction (hd (get_cards_of_type v NOPE)) None)
      \<and> aaron_react r v e = Some (PlayCardAction (hd (get_cards_of_type v NOPE)) None))"
proof (cases "get_cards_of_type v NOPE")
  case Nil
  then show ?thesis using react_without_nope [of v r e] by simp
next
  case (Cons n ns)
  then show ?thesis using react_attack_on_self [of v n ns e r] by simp
qed

theorem reaction_veto_witness:
  "my_bot_react (1 / 2) sample_view attack_on_me = None
   \<and> aaron_react (1 / 2) sample_view attack_on_me = None
   \<and> my_bot_react (1 / 2) (sample_view\<lparr>my_hand := [nope_card, defuse_card]\<rparr>) attack_on_me
       = Some (PlayCardAction nope_card None)
   \<and> aaron_react (1 / 2) (sample_view\<lparr>my_hand := [nope_card, defuse_card]\<rparr>) attack_on_me
       = Some (PlayCardAction nope_card None)"
proof -
  have hand: "get_cards_of_type sample_view NOPE = []"
    "get_cards_of_type (sample_view\<lparr>my_hand := [nope_card, defuse_card]\<rparr>) NOPE = [nope_card]"
    by (simp_all add: get_cards_of_type_def sample_view_def nope_card_def defuse_card_def card_consts)
  have ev: "event_type attack_on_me = CARD_PLAYED" "data_card_type attack_on_me = Some ATTACK"
    "data_target_player_id attack_on_me = Some (my_id sample_view)"
    "data_target_player_id attack_on_me
       = Some (my_id (sample_view\<lparr>my_hand := [nope_card, defuse_card]\<rparr>))"
    by (simp_all add: attack_on_me_def sample_event_def sample_view_def)
  show ?thesis
    using reaction_veto [of sample_view "1 / 2" attack_on_me]
      reaction_veto [of "sample_view\<lparr>my_hand := [nope_card, defuse_card]\<rparr>" "1 / 2" attack_on_me]
    by (simp only: hand ev) simp
qed

section \<open>Properties of the combo detector\<close>

lemma first_seen_simps [simp]:
  "first_seen [] = []"
  "first_seen (xs @ [x]) = (if x \<in> set xs then first_seen xs else first_seen xs @ [x])"
  by (simp_all add: first_seen_def)

lemma first_seen_set [simp]: "set (first_seen xs) = set xs"
  by (simp add: first_seen_def)

lemma first_seen_distinct [simp]: "distinct (first_seen xs)"
  by (simp add: first_seen_def)

lemma add_to_group_known:
  "distinct ks \<Longrightarrow> card_type c \<in> set ks \<Longrightarrow>
   add_to_group (map (\<lambda>t. (t, F t)) ks) c
     = map (\<lambda>t. (t, if t = card_type c then F t @ [c] else F t)) ks"
  by (induction ks) auto

lemma add_to_group_new:
  "card_type c \<notin> set ks \<Longrightarrow>
   add_to_group (map (\<lambda>t. (t, F t)) ks) c = map (\<lambda>t. (t, F t)) ks @ [(card_type c, [c])]"
  by (induction ks) auto

lemma filter_absent: "t \<notin> card_type ` set cs \<Longrightarrow> filter (\<lambda>c. card_type c = t) cs = []"
  by (induction cs) auto

lemma grouped_snoc: "add_to_group (grouped cs) c = grouped (cs @ [c])"
proof (cases "card_type c \<in> set (map card_type cs)")
  case True
  then show ?thesis
    unfolding grouped_def
    by (subst add_to_group_known) (auto simp: )
next
  case False
  then show ?thesis
    unfolding grouped_def
    by (subst add_to_group_new) (auto simp: filter_absent)
qed

lemma foldl_grouped: "foldl add_to_group (grouped pre) xs = grouped (pre @ xs)"
proof (induction xs arbitrary: pre)
  case Nil
  show ?case by simp
next
  case (Cons x xs)
  show ?case using Cons [of "pre @ [x]"] by (simp add: grouped_snoc)
qed

lemma by_type_grouped: "foldl add_to_group [] xs = grouped xs"
  using foldl_grouped [of "[]" xs] by (simp add: grouped_def)


lemma count_type_known:
  "distinct ks \<Longrightarrow> t \<in> set ks \<Longrightarrow>
   count_type (map (\<lambda>k. (k, N k)) ks) t = map (\<lambda>k. (k, if k = t then N k + 1 else N k)) ks"
  by (induction ks) auto

lemma count_type_new:
  "t \<notin> set ks \<Longrightarrow> count_type (map (\<lambda>k. (k, N k)) ks) t = map (\<lambda>k. (k, N k)) ks @ [(t, 1)]"
  by (induction ks) auto

lemma filter_eq_absent: "k \<notin> set ts \<Longrightarrow> filter (\<lambda>t. t = k) ts = []"
  by (induction ts) auto

lemma counted_snoc: "count_type (counted ts) t = counted (ts @ [t])"
proof (cases "t \<in> set ts")
  case True
  then show ?thesis
    unfolding counted_def by (subst count_type_known) auto
next
  case False
  then show ?thesis
    unfolding counted_def by (subst count_type_new) (auto simp: filter_eq_absent)
qed

lemma foldl_counted: "foldl count_type (counted pre) ts = counted (pre @ ts)"
proof (induction ts arbitrary: pre)
  case Nil
  show ?case by simp
next
  case (Cons t ts)
  show ?case using Cons [of "pre @ [t]"] by (simp add: counted_snoc)
qed

lemma by_type_counted: "foldl count_type [] ts = counted ts"
  using foldl_counted [of "[]" ts] by (simp add: counted_def)

lemma length_filter_map_type:
  "length (filter (\<lambda>t. t = k) (map card_type cs)) = length (filter (\<lambda>c. card_type c = k) cs)"
  by (induction cs) auto

lemma pairs_and_triples_spec:
  "pairs_and_triples (map (\<lambda>t. (t, F t)) ks) = concat (map (\<lambda>t. spec_entry (F t)) ks)"
  by (induction ks) (auto simp: spec_entry_def)

lemma aaron_pairs_and_triples_spec:
  "aaron_pairs_and_triples cs (map (\<lambda>t. (t, length (filter (\<lambda>c. card_type c = t) cs))) ks)
     = concat (map (\<lambda>t. spec_entry (filter (\<lambda>c. card_type c = t) cs)) ks)"
  by (induction ks) (auto simp: spec_entry_def Let_def)

lemma map_of_tabulated:
  "map_of (map (\<lambda>t. (t, F t)) ks) t = (if t \<in> set ks then Some (F t) else None)"
  by (induction ks) auto

lemma group_of_grouped:
  "t \<in> set (map card_type cs) \<Longrightarrow> group_of (grouped cs) t = filter (\<lambda>c. card_type c = t) cs"
  by (simp add: group_of_def grouped_def map_of_tabulated)

lemma fst_grouped: "map fst (grouped cs) = first_seen (map card_type cs)"
  by (simp add: grouped_def comp_def)

lemma fst_counted: "map fst (counted ts) = first_seen ts"
  by (simp add: counted_def comp_def)

lemma five_cards_grouped:
  "map (\<lambda>t. hd (group_of (grouped cs) t)) (take 5 (map fst (grouped cs)))
     = map (\<lambda>t. hd (filter (\<lambda>c. card_type c = t) cs)) (take 5 (first_seen (map card_type cs)))"
proof -
  have "\<And>t. t \<in> set (take 5 (first_seen (map card_type cs))) \<Longrightarrow> t \<in> set (map card_type cs)"
    using set_take_subset [of 5 "first_seen (map card_type cs)"] by auto
  then show ?thesis
    by (simp add: fst_grouped group_of_grouped cong: map_cong)
qed

lemma find_first:
  "t \<in> card_type ` set cs \<Longrightarrow>
   find (\<lambda>c. card_type c = t) cs = Some (hd (filter (\<lambda>c. card_type c = t) cs))"
  by (induction cs) auto

lemma unique_cards_spec:
  assumes "set ks \<subseteq> card_type ` set cs" "length acc \<le> 5"
  shows "aaron_unique_cards cs ks acc
    = acc @ map (\<lambda>t. hd (filter (\<lambda>c. card_type c = t) cs)) (take (5 - length acc) ks)"
  using assms
proof (induction ks arbitrary: acc)
  case Nil
  show ?case by simp
next
  case (Cons t ts)
  show ?case
  proof (cases "length acc \<ge> 5")
    case True
    then show ?thesis using Cons.prems by simp
  next
    case False
    let ?c = "hd (filter (\<lambda>c. card_type c = t) cs)"
    have f: "find (\<lambda>c. card_type c = t) cs = Some ?c"
      using Cons.prems(1) by (intro find_first) auto
    have step: "aaron_unique_cards cs (t # ts) acc = aaron_unique_cards cs ts (acc @ [?c])"
      using False f by simp
    have "aaron_unique_cards cs ts (acc @ [?c])
        = (acc @ [?c]) @ map (\<lambda>t. hd (filter (\<lambda>c. card_type c = t) cs)) (take (5 - length (acc @ [?c])) ts)"
      using Cons.prems False by (intro Cons.IH) auto
    moreover have "take (5 - length acc) (t # ts) = t # take (5 - length (acc @ [?c])) ts"
      using False by (simp add: take_Cons')
    ultimately show ?thesis using step by simp
  qed
qed

lemma eligible_kinds_empty: "eligible hand = [] \<Longrightarrow> kinds hand = []"
  by (simp add: kinds_def)

lemma spec_empty: "eligible hand = [] \<Longrightarrow> spec_find_combos hand = []"
  by (simp add: spec_find_combos_def eligible_kinds_empty)

lemma my_bot_combos_spec: "my_bot_find_possible_combos hand = spec_find_combos hand"
proof (cases "eligible hand = []")
  case True
  then show ?thesis
    using spec_empty [OF True] by (simp add: my_bot_find_possible_combos_def eligible_def)
next
  case False
  have len: "length (grouped (eligible hand)) = length (kinds hand)"
    by (simp add: grouped_def kinds_def)
  have pt: "pairs_and_triples (grouped (eligible hand))
      = concat (map (\<lambda>t. spec_entry (of_kind t hand)) (kinds hand))"
    unfolding grouped_def kinds_def of_kind_def by (rule pairs_and_triples_spec)
  have five: "map (\<lambda>t. hd (group_of (grouped (eligible hand)) t)) (take 5 (map fst (grouped (eligible hand))))
      = map (\<lambda>t. hd (of_kind t hand)) (take 5 (kinds hand))"
    unfolding kinds_def of_kind_def by (rule five_cards_grouped)
  have "my_bot_find_possible_combos hand
      = (let by_type = grouped (eligible hand); combos = pairs_and_triples by_type
         in if length by_type \<ge> 5
            then combos @ [(''five_different'',
                  map (\<lambda>t. hd (group_of by_type t)) (take 5 (map fst by_type)))]
            else combos)"
    using False by (simp add: my_bot_find_possible_combos_def eligible_def by_type_grouped)
  then show ?thesis
    by (simp add: Let_def len pt five spec_find_combos_def)
qed


lemma aaron_combos_spec: "aaron_find_possible_combos hand = spec_find_combos hand"
proof (cases "eligible hand = []")
  case True
  then show ?thesis
    using spec_empty [OF True] by (simp add: aaron_find_possible_combos_def eligible_def)
next
  case False
  let ?cs = "eligible hand"
  let ?bt = "counted (map card_type ?cs)"
  have bt: "?bt = map (\<lambda>t. (t, length (filter (\<lambda>c. card_type c = t) ?cs))) (kinds hand)"
    by (simp add: counted_def kinds_def filter_map comp_def)
  have len: "length ?bt = length (kinds hand)"
    by (simp add: bt)
  have keys: "map fst ?bt = kinds hand"
    by (simp add: fst_counted kinds_def)
  have pt: "aaron_pairs_and_triples ?cs ?bt
      = concat (map (\<lambda>t. spec_entry (of_kind t hand)) (kinds hand))"
    unfolding bt of_kind_def by (rule aaron_pairs_and_triples_spec)
  have sub: "set (kinds hand) \<subseteq> card_type ` set ?cs"
    by (simp add: kinds_def)
  have uc: "aaron_unique_cards ?cs (kinds hand) []
      = map (\<lambda>t. hd (of_kind t hand)) (take 5 (kinds hand))"
    using unique_cards_spec [OF sub, of "[]"] by (simp add: of_kind_def)
  have "aaron_find_possible_combos hand
      = (let combos = aaron_pairs_and_triples ?cs ?bt
         in if length ?bt \<ge> 5 then
              (let unique_cards = aaron_unique_cards ?cs (map fst ?bt) []
               in if length unique_cards \<ge> 5
                  then combos @ [(''five_different'', take 5 unique_cards)]
                  else combos)
            else combos)"
    using False by (simp add: aaron_find_possible_combos_def eligible_def by_type_counted Let_def)
  then show ?thesis
    by (simp add: Let_def len keys pt uc spec_find_combos_def)
qed

lemma of_kind_types: "c \<in> set (of_kind t hand) \<Longrightarrow> card_type c = t"
  by (simp add: of_kind_def)

lemma of_kind_absent: "t \<notin> set (kinds hand) \<Longrightarrow> of_kind t hand = []"
  by (simp add: kinds_def of_kind_def filter_absent)

lemma spec_entry_about:
  "filter (about_kind t) (spec_entry (of_kind t' hand))
     = (if t = t' then spec_entry (of_kind t hand) else [])"
proof -
  have types: "card_type ` set (take n (of_kind t' hand)) \<subseteq> {t'}" for n
    using of_kind_types [of _ t' hand] by (auto dest: in_set_takeD)
  have ne: "3 \<le> length (of_kind t' hand) \<Longrightarrow> take 3 (of_kind t' hand) \<noteq> []"
    by auto
  show ?thesis
  proof (cases "t = t'")
    case True
    have "card_type ` set (take 3 (of_kind t hand)) = {t}" if "3 \<le> length (of_kind t hand)"
      using that types [of 3] ne True by (cases "take 3 (of_kind t hand)") auto
    moreover have "card_type ` set (of_kind t hand) = {t}" if "length (of_kind t hand) = 2"
      using that of_kind_types [of _ t hand] by (cases "of_kind t hand") auto
    ultimately show ?thesis
      using True by (auto simp: spec_entry_def about_kind_def)
  next
    case False
    have "t \<notin> card_type ` set (take n (of_kind t' hand))" for n
      using types [of n] False by auto
    moreover have "t \<notin> card_type ` set (of_kind t' hand)"
      using of_kind_types [of _ t' hand] False by auto
    ultimately show ?thesis
      using False by (auto simp: spec_entry_def about_kind_def)
  qed
qed

lemma concat_single:
  "distinct ks \<Longrightarrow> concat (map (\<lambda>k. if t = k then E else []) ks) = (if t \<in> set ks then E else [])"
  by (induction ks) auto

lemma spec_about_kind:
  "filter (about_kind t) (spec_find_combos hand) = spec_entry (of_kind t hand)"
proof -
  have five: "\<not> about_kind t (''five_different'', cs)" for cs
    by (simp add: about_kind_def)
  have "filter (about_kind t) (spec_find_combos hand)
      = concat (map (\<lambda>t'. if t = t' then spec_entry (of_kind t hand) else []) (kinds hand))"
    by (simp add: spec_find_combos_def filter_concat comp_def spec_entry_about five)
  also have "\<dots> = (if t \<in> set (kinds hand) then spec_entry (of_kind t hand) else [])"
    by (rule concat_single) (simp add: kinds_def)
  also have "\<dots> = spec_entry (of_kind t hand)"
    using of_kind_absent [of t hand] by (simp add: spec_entry_def)
  finally show ?thesis .
qed

lemma spec_entry_not_five: "filter is_five (spec_entry cs) = []"
  by (simp add: spec_entry_def is_five_def)

lemma spec_is_five:
  "filter is_five (spec_find_combos hand)
     = (if length (kinds hand) \<ge> 5
        then [(''five_different'', map (\<lambda>t. hd (of_kind t hand)) (take 5 (kinds hand)))]
        else [])"
proof -
  have "filter is_five (concat (map (\<lambda>t. spec_entry (of_kind t hand)) ks)) = []" for ks
    by (induction ks) (simp_all add: spec_entry_not_five)
  then show ?thesis
    by (simp add: spec_find_combos_def is_five_def)
qed

lemma five_cards_kinds:
  "map card_type (map (\<lambda>t. hd (of_kind t hand)) (take n (kinds hand))) = take n (kinds hand)"
proof -
  have "card_type (hd (of_kind t hand)) = t" if "t \<in> set (take n (kinds hand))" for t
  proof -
    have "t \<in> card_type ` set (eligible hand)"
      using that set_take_subset [of n "kinds hand"] by (auto simp: kinds_def)
    then have "of_kind t hand \<noteq> []"
      by (auto simp: of_kind_def filter_empty_conv)
    then have "hd (of_kind t hand) \<in> set (of_kind t hand)" by simp
    then show ?thesis by (rule of_kind_types)
  qed
  then show ?thesis by (simp add: comp_def cong: map_cong)
qed

lemma five_cards_eligible:
  "set (map (\<lambda>t. hd (of_kind t hand)) (take n (kinds hand))) \<subseteq> set (eligible hand)"
proof
  fix c assume "c \<in> set (map (\<lambda>t. hd (of_kind t hand)) (take n (kinds hand)))"
  then obtain t where t: "t \<in> set (take n (kinds hand))" and c: "c = hd (of_kind t hand)"
    by auto
  have "t \<in> card_type ` set (eligible hand)"
    using t set_take_subset [of n "kinds hand"] by (auto simp: kinds_def)
  then have "of_kind t hand \<noteq> []"
    by (auto simp: of_kind_def filter_empty_conv)
  then have "c \<in> set (of_kind t hand)" using c by simp
  then show "c \<in> set (eligible hand)" by (simp add: of_kind_def)
qed


text \<open>
  Claim C4. For every hand and every kind \<open>t\<close>, the detectors of \<open>my_bot.py\<close> and
  \<open>aaron_bot.py\<close> yield, among their pair and triple entries, for \<open>t\<close>: exactly one triple of
  the first three eligible cards of kind \<open>t\<close> when there are three or more (and no pair),
  and exactly one pair when there are exactly two. When five or more distinct eligible
  kinds are present they yield exactly one five-distinct combo: one eligible card, the
  first, of each of the first five kinds. The entries for different kinds are independent,
  so a triple for one kind and a pair for another appear together.
\<close>

theorem combo_detector_yields:
  "(3 \<le> length (of_kind t hand) \<longrightarrow>
      filter (about_kind t) (my_bot_find_possible_combos hand)
        = [(''three_of_a_kind'', take 3 (of_kind t hand))]
    \<and> filter (about_kind t) (aaron_find_possible_combos hand)
        = [(''three_of_a_kind'', take 3 (of_kind t hand))])
   \<and> (length (of_kind t hand) = 2 \<longrightarrow>
      filter (about_kind t) (my_bot_find_possible_combos hand)
        = [(''two_of_a_kind'', of_kind t hand)]
    \<and> filter (about_kind t) (aaron_find_possible_combos hand)
        = [(''two_of_a_kind'', of_kind t hand)])
   \<and> (5 \<le> length (kinds hand) \<longrightarrow>
      (\<exists>cards. filter is_five (my_bot_find_possible_combos hand) = [(''five_different'', cards)]
         \<and> filter is_five (aaron_find_possible_combos hand) = [(''five_different'', cards)]
         \<and> cards = map (\<lambda>k. hd (of_kind k hand)) (take 5 (kinds hand))
         \<and> map card_type cards = take 5 (kinds hand)
         \<and> distinct (map card_type cards) \<and> length cards = 5
         \<and> set cards \<subseteq> set (eligible hand)))"
proof -
  have d: "distinct (take 5 (kinds hand))"
    by (simp add: kinds_def)
  show ?thesis
    using five_cards_kinds [of hand 5] five_cards_eligible [of hand 5] d
    by (simp add: my_bot_combos_spec aaron_combos_spec spec_about_kind spec_is_five spec_entry_def)
qed

lemma cat_fields [simp]: "card_type (cat t) = t" "can_combo (cat t)"
  by (simp_all add: cat_def)

lemma defuse_fields [simp]: "\<not> can_combo defuse_card"
  by (simp add: defuse_card_def)

theorem combo_detector_yields_witness:
  "filter (about_kind ''TacoCat'') (my_bot_find_possible_combos triple_pair_hand)
     = [(''three_of_a_kind'', [cat ''TacoCat'', cat ''TacoCat'', cat ''TacoCat''])]
   \<and> filter (about_kind ''BeardCat'') (aaron_find_possible_combos triple_pair_hand)
     = [(''two_of_a_kind'', [cat ''BeardCat'', cat ''BeardCat''])]
   \<and> filter is_five (my_bot_find_possible_combos five_kinds_hand)
     = [(''five_different'', [cat ''TacoCat'', cat ''BeardCat'', cat ''RainbowCat'',
          cat ''PotatoCat'', cat ''Cattermelon''])]
   \<and> filter is_five (aaron_find_possible_combos five_kinds_hand)
     = [(''five_different'', [cat ''TacoCat'', cat ''BeardCat'', cat ''RainbowCat'',
          cat ''PotatoCat'', cat ''Cattermelon''])]"
proof -
  have taco: "of_kind ''TacoCat'' triple_pair_hand = [cat ''TacoCat'', cat ''TacoCat'', cat ''TacoCat'']"
    and beard: "of_kind ''BeardCat'' triple_pair_hand = [cat ''BeardCat'', cat ''BeardCat'']"
    by (simp_all add: of_kind_def eligible_def triple_pair_hand_def)
  have ks: "kinds five_kinds_hand = [''TacoCat'', ''BeardCat'', ''RainbowCat'', ''PotatoCat'', ''Cattermelon'']"
    by (simp add: kinds_def first_seen_def eligible_def five_kinds_hand_def)
  have firsts: "of_kind ''TacoCat'' five_kinds_hand = [cat ''TacoCat'']"
    "of_kind ''BeardCat'' five_kinds_hand = [cat ''BeardCat'']"
    "of_kind ''RainbowCat'' five_kinds_hand = [cat ''RainbowCat'']"
    "of_kind ''PotatoCat'' five_kinds_hand = [cat ''PotatoCat'']"
    "of_kind ''Cattermelon'' five_kinds_hand = [cat ''Cattermelon'']"
    by (simp_all add: of_kind_def eligible_def five_kinds_hand_def)
  show ?thesis
    using combo_detector_yields [of "''TacoCat''" triple_pair_hand] combo_detector_yields [of "''BeardCat''" triple_pair_hand]
      combo_detector_yields [of "''TacoCat''" five_kinds_hand]
    by (simp add: taco beard ks firsts)
qed

lemma triple_and_pair_together:
  "my_bot_find_possible_combos triple_pair_hand
     = [(''three_of_a_kind'', [cat ''TacoCat'', cat ''TacoCat'', cat ''TacoCat'']),
        (''two_of_a_kind'', [cat ''BeardCat'', cat ''BeardCat''])]
   \<and> aaron_find_possible_combos triple_pair_hand
     = [(''three_of_a_kind'', [cat ''TacoCat'', cat ''TacoCat'', cat ''TacoCat'']),
        (''two_of_a_kind'', [cat ''BeardCat'', cat ''BeardCat''])]"
  by (simp add: my_bot_find_possible_combos_def aaron_find_possible_combos_def triple_pair_hand_def Let_def)

section \<open>Properties of the action policy\<close>

lemma py_max_some: "xs \<noteq> [] \<Longrightarrow> \<exists>y. py_max key xs = Some y \<and> y \<in> set xs"
proof -
  have inv: "foldl (\<lambda>best y. if key y > key best then y else best) x rest \<in> set (x # rest)" for x rest
  proof (induction rest arbitrary: x)
    case Nil
    show ?case by simp
  next
    case (Cons r rest)
    show ?case using Cons [of "if key r > key x then r else x"] by auto
  qed
  assume "xs \<noteq> []"
  then obtain x rest where xs: "xs = x # rest" by (cases xs) auto
  show ?thesis using inv [of x rest] by (simp add: py_max_def xs)
qed

lemma find_three_entries:
  assumes "find (\<lambda>cb. fst cb = ''three_of_a_kind'') rest = None"
  shows "find (\<lambda>cb. fst cb = ''three_of_a_kind'') (concat (map (\<lambda>t. spec_entry (F t)) ks) @ rest)
    = map_option (\<lambda>t. (''three_of_a_kind'', take 3 (F t))) (find (\<lambda>t. 3 \<le> length (F t)) ks)"
  using assms by (induction ks) (auto simp: spec_entry_def)

lemma find_three_spec:
  "find (\<lambda>cb. fst cb = ''three_of_a_kind'') (spec_find_combos hand)
    = map_option (\<lambda>t. (''three_of_a_kind'', take 3 (of_kind t hand))) (first_triple_kind hand)"
  unfolding spec_find_combos_def first_triple_kind_def
  by (rule find_three_entries) simp

lemma best_combo_entries:
  assumes "find (\<lambda>t. 3 \<le> length (F t)) ks = Some X"
  shows "aaron_best_combo prem (concat (map (\<lambda>t. spec_entry (F t)) ks) @ rest) best
    = Some (''three_of_a_kind'', take 3 (F X))"
  using assms
proof (induction ks arbitrary: best)
  case Nil
  then show ?case by simp
next
  case (Cons k ks)
  show ?case
  proof (cases "3 \<le> length (F k)")
    case True
    then show ?thesis using Cons.prems by (simp add: spec_entry_def)
  next
    case False
    then have X: "find (\<lambda>t. 3 \<le> length (F t)) ks = Some X" using Cons.prems by simp
    show ?thesis using False Cons.IH [OF X] by (simp add: spec_entry_def)
  qed
qed

lemma best_combo_spec:
  "first_triple_kind hand = Some X \<Longrightarrow>
   aaron_best_combo prem (spec_find_combos hand) None = Some (''three_of_a_kind'', take 3 (of_kind X hand))"
  unfolding spec_find_combos_def first_triple_kind_def
  by (rule best_combo_entries)

lemma first_triple_kind_props:
  "first_triple_kind hand = Some X \<Longrightarrow> 3 \<le> length (of_kind X hand)"
  by (auto simp: first_triple_kind_def dest: find_Some_iff [THEN iffD1])

lemma spec_nonempty: "first_triple_kind hand = Some X \<Longrightarrow> spec_find_combos hand \<noteq> []"
  using find_three_spec [of hand] by (cases "spec_find_combos hand") auto

lemma only_triple_kind:
  assumes "3 \<le> length (of_kind X hand)" "\<forall>t. 3 \<le> length (of_kind t hand) \<longrightarrow> t = X"
  shows "first_triple_kind hand = Some X"
proof -
  have "X \<in> set (kinds hand)"
  proof (rule ccontr)
    assume "X \<notin> set (kinds hand)"
    then have "of_kind X hand = []" by (rule of_kind_absent)
    then show False using assms(1) by simp
  qed
  then have "find (\<lambda>t. 3 \<le> length (of_kind t hand)) (kinds hand) \<noteq> None"
    using assms(1) by (auto simp: find_None_iff)
  then obtain Y where Y: "find (\<lambda>t. 3 \<le> length (of_kind t hand)) (kinds hand) = Some Y" by auto
  then have "3 \<le> length (of_kind Y hand)"
    by (auto dest: find_Some_iff [THEN iffD1])
  then have "Y = X" using assms(2) by simp
  then show ?thesis using Y by (simp add: first_triple_kind_def)
qed


lemma my_bot_combo_gate:
  assumes others: "other_players v \<noteq> []"
    and triple: "first_triple_kind (my_hand v) = Some X"
    and no_peek: "get_cards_of_type v STF = [] \<or> draw_pile_count v \<le> 0"
    and no_attack: "my_turns_remaining v \<le> 1 \<or> get_cards_of_type v ATTACK = []"
    and no_skip: "my_turns_remaining v \<le> 1 \<or> get_cards_of_type v SKIP = []"
  shows "my_bot_take_turn v
    = PlayComboAction (take 3 (of_kind X (my_hand v))) (py_max (card_count_of v) (other_players v))"
proof -
  have ne: "my_bot_find_possible_combos (my_hand v) \<noteq> []"
    using spec_nonempty [OF triple] by (simp add: my_bot_combos_spec)
  have three: "find (\<lambda>cb. fst cb = ''three_of_a_kind'') (my_bot_find_possible_combos (my_hand v))
      = Some (''three_of_a_kind'', take 3 (of_kind X (my_hand v)))"
    using find_three_spec [of "my_hand v"] triple by (simp add: my_bot_combos_spec)
  have g1: "\<not> (get_cards_of_type v ''SeeTheFutureCard'' \<noteq> [] \<and> draw_pile_count v > 0)"
    using no_peek by (auto simp: STF_def)
  have g2: "\<not> (my_turns_remaining v > 1 \<and> get_cards_of_type v ''AttackCard'' \<noteq> [])"
    using no_attack by (auto simp: ATTACK_def)
  have g3: "\<not> (my_turns_remaining v > 1 \<and> get_cards_of_type v ''SkipCard'' \<noteq> [])"
    using no_skip by (auto simp: SKIP_def)
  show ?thesis
    using g1 g2 g3 by (simp add: my_bot_take_turn_def Let_def ne others three)
qed

lemma strategic_in_others:
  "aaron_find_strategic_bot_id v = Some p \<Longrightarrow> p \<in> set (other_players v)"
  by (auto simp: aaron_find_strategic_bot_id_def dest: find_Some_iff [THEN iffD1] intro: nth_mem)

lemma attack_target_some:
  assumes "other_players v \<noteq> []"
  shows "\<exists>p. aaron_choose_attack_target v False = Some p \<and> p \<in> set (other_players v)"
proof (cases "aaron_find_strategic_bot_id v")
  case None
  then show ?thesis
    using assms py_max_some [OF assms, of "card_count_of v"]
    by (simp add: aaron_choose_attack_target_def)
next
  case (Some p)
  then show ?thesis
    using assms strategic_in_others [OF Some] by (simp add: aaron_choose_attack_target_def)
qed

lemma combo_target_some:
  assumes others: "other_players v \<noteq> []"
    and holder: "\<exists>p \<in> set (other_players v). card_count_of v p > 0"
  shows "\<exists>p. aaron_combo_target v = Some p \<and> p \<in> set (other_players v)"
proof -
  obtain t where t: "aaron_choose_attack_target v False = Some t" "t \<in> set (other_players v)"
    using attack_target_some [OF others] by auto
  show ?thesis
  proof (cases "card_count_of v t \<le> 0")
    case False
    then show ?thesis using others t by (simp add: aaron_combo_target_def)
  next
    case True
    let ?w = "filter (\<lambda>pid. card_count_of v pid > 0) (other_players v)"
    have "?w \<noteq> []" using holder by (auto simp: filter_empty_conv)
    then obtain p ps where w: "?w = p # ps" by (cases ?w) auto
    then have "p \<in> set ?w" by simp
    then have "p \<in> set (other_players v)" by simp
    then show ?thesis using others t True w by (simp add: aaron_combo_target_def)
  qed
qed

lemma aaron_combo_gate:
  assumes target: "aaron_combo_target v = Some p"
    and triple: "first_triple_kind (my_hand v) = Some X"
  shows "aaron_decide_action s v risk = PlayComboAction (take 3 (of_kind X (my_hand v))) (Some p)"
proof -
  have ne: "aaron_find_possible_combos (my_hand v) \<noteq> []"
    using spec_nonempty [OF triple] by (simp add: aaron_combos_spec)
  have best: "aaron_best_combo prem (aaron_find_possible_combos (my_hand v)) None
      = Some (''three_of_a_kind'', take 3 (of_kind X (my_hand v)))" for prem
    using best_combo_spec [OF triple] by (simp add: aaron_combos_spec)
  have "aaron_try_play_best_combo v = Some (PlayComboAction (take 3 (of_kind X (my_hand v))) (Some p))"
    by (simp add: aaron_try_play_best_combo_def target ne best Let_def)
  then show ?thesis by (simp add: aaron_decide_action_def)
qed

lemma aaron_turn_reaches_tree:
  assumes "a_turn_count s \<noteq> 0" "\<not> a_first_ek_seen_from_other s"
  shows "snd (aaron_take_turn s v)
    = aaron_decide_action
        ((aaron_initialize_game_baseline s v)\<lparr>a_turn_count := a_turn_count s + 1\<rparr>) v
        (aaron_calculate_ek_risk
          ((aaron_initialize_game_baseline s v)\<lparr>a_turn_count := a_turn_count s + 1\<rparr>) v)"
  using assms
  by (simp add: aaron_take_turn_def Let_def aaron_initialize_game_baseline_def
      aaron_play_after_first_ek_def)

lemma aaron_first_turn_draws:
  "a_turn_count s = 0 \<Longrightarrow> snd (aaron_take_turn s v) = DrawCardAction"
  by (simp add: aaron_take_turn_def Let_def aaron_initialize_game_baseline_def)


lemma some_triple_kind:
  assumes "3 \<le> length (of_kind X hand)"
  shows "\<exists>Y. first_triple_kind hand = Some Y \<and> 3 \<le> length (of_kind Y hand)"
proof -
  have "X \<in> set (kinds hand)"
  proof (rule ccontr)
    assume "X \<notin> set (kinds hand)"
    then have "of_kind X hand = []" by (rule of_kind_absent)
    then show False using assms by simp
  qed
  then have "find (\<lambda>t. 3 \<le> length (of_kind t hand)) (kinds hand) \<noteq> None"
    using assms by (auto simp: find_None_iff)
  then obtain Y where "first_triple_kind hand = Some Y"
    by (auto simp: first_triple_kind_def)
  then show ?thesis using first_triple_kind_props [of hand Y] by simp
qed

text \<open>
  Claim C3, as the code has it. Let the hand hold three or more combo-eligible cards of a
  kind \<open>X\<close> and let at least one opponent live. Then some kind \<open>Y\<close> is the first with three or
  more eligible cards (\<open>Y = X\<close> when \<open>X\<close> is the only such kind), and the combo of the first
  three cards of kind \<open>Y\<close> is played once the combo gate is reached. In \<open>my_bot.py\<close> the gate
  is the fourth: \<open>take_turn\<close> returns that combo, aimed at the opponent with the most cards,
  when no peek card can be played (none in hand or an empty draw pile) and the agent has at
  most one turn left or holds neither a redirect-turn nor a turn-skip card. In
  \<open>aaron_bot.py\<close> the gate is the first of \<open>decide_action\<close>: \<open>take_turn\<close> returns that combo,
  aimed at the target \<open>_try_play_best_combo\<close> settles on, a living opponent, when it is not
  the agent's first turn, no hazard drawn by another player has been seen and some opponent
  holds a card; on the agent's first turn it draws.
\<close>

theorem combo_gate_when_reached:
  assumes others: "other_players v \<noteq> []"
    and three: "3 \<le> length (of_kind X (my_hand v))"
  shows "\<exists>Y. first_triple_kind (my_hand v) = Some Y
    \<and> 3 \<le> length (of_kind Y (my_hand v))
    \<and> ((\<forall>t. 3 \<le> length (of_kind t (my_hand v)) \<longrightarrow> t = X) \<longrightarrow> Y = X)
    \<and> ((get_cards_of_type v STF = [] \<or> draw_pile_count v \<le> 0)
        \<and> (my_turns_remaining v \<le> 1 \<or> get_cards_of_type v ATTACK = [])
        \<and> (my_turns_remaining v \<le> 1 \<or> get_cards_of_type v SKIP = []) \<longrightarrow>
          my_bot_take_turn v
            = PlayComboAction (take 3 (of_kind Y (my_hand v)))
                (py_max (card_count_of v) (other_players v))
        \<and> (\<exists>p \<in> set (other_players v). py_max (card_count_of v) (other_players v) = Some p))
    \<and> (a_turn_count s \<noteq> 0 \<and> \<not> a_first_ek_seen_from_other s
        \<and> (\<exists>p \<in> set (other_players v). card_count_of v p > 0) \<longrightarrow>
          snd (aaron_take_turn s v)
            = PlayComboAction (take 3 (of_kind Y (my_hand v))) (aaron_combo_target v)
        \<and> (\<exists>p \<in> set (other_players v). aaron_combo_target v = Some p))
    \<and> (a_turn_count s = 0 \<longrightarrow> snd (aaron_take_turn s v) = DrawCardAction)"
proof -
  obtain Y where Y: "first_triple_kind (my_hand v) = Some Y"
    and Y3: "3 \<le> length (of_kind Y (my_hand v))"
    using some_triple_kind [OF three] by auto
  have only: "(\<forall>t. 3 \<le> length (of_kind t (my_hand v)) \<longrightarrow> t = X) \<longrightarrow> Y = X"
    using Y3 by auto
  have mine: "my_bot_take_turn v
        = PlayComboAction (take 3 (of_kind Y (my_hand v)))
            (py_max (card_count_of v) (other_players v))"
    if "get_cards_of_type v STF = [] \<or> draw_pile_count v \<le> 0"
      "my_turns_remaining v \<le> 1 \<or> get_cards_of_type v ATTACK = []"
      "my_turns_remaining v \<le> 1 \<or> get_cards_of_type v SKIP = []"
    using that by (intro my_bot_combo_gate [OF others Y])
  have tgt: "\<exists>p \<in> set (other_players v). py_max (card_count_of v) (other_players v) = Some p"
    using py_max_some [OF others, of "card_count_of v"] by auto
  have aaron: "snd (aaron_take_turn s v)
        = PlayComboAction (take 3 (of_kind Y (my_hand v))) (aaron_combo_target v)
      \<and> (\<exists>p \<in> set (other_players v). aaron_combo_target v = Some p)"
    if tc: "a_turn_count s \<noteq> 0" and fl: "\<not> a_first_ek_seen_from_other s"
      and hl: "\<exists>p \<in> set (other_players v). card_count_of v p > 0"
  proof -
    obtain p where p: "aaron_combo_target v = Some p" "p \<in> set (other_players v)"
      using combo_target_some [OF others hl] by auto
    show ?thesis
      using aaron_turn_reaches_tree [OF tc fl, of v] aaron_combo_gate [OF p(1) Y] p
      by simp
  qed
  have first: "a_turn_count s = 0 \<longrightarrow> snd (aaron_take_turn s v) = DrawCardAction"
    using aaron_first_turn_draws [of s v] by simp
  show ?thesis
    using Y Y3 only mine tgt aaron first by blast
qed

lemma stf_fields [simp]: "card_type stf_card = STF" "\<not> can_combo stf_card"
  by (simp_all add: stf_card_def)

lemma defuse_type [simp]: "card_type defuse_card = DEFUSE"
  by (simp add: defuse_card_def)

lemma combo_view_fields [simp]:
  "my_hand combo_view = triple_pair_hand" "other_players combo_view = [''p1'', ''p2'', ''p3'']"
  "draw_pile_count combo_view = 20" "my_turns_remaining combo_view = 1"
  by (simp_all add: combo_view_def sample_view_def)

lemma combo_view_counts [simp]:
  "card_count_of combo_view ''p1'' = 5" "card_count_of combo_view ''p2'' = 4"
  "card_count_of combo_view ''p3'' = 6"
  by (simp_all add: card_count_of_def combo_view_def sample_view_def)

lemma taco_only_triple:
  "of_kind ''TacoCat'' triple_pair_hand = [cat ''TacoCat'', cat ''TacoCat'', cat ''TacoCat'']"
  "\<forall>t. 3 \<le> length (of_kind t triple_pair_hand) \<longrightarrow> t = ''TacoCat''"
  by (auto simp: of_kind_def eligible_def triple_pair_hand_def split: if_splits)

theorem combo_gate_when_reached_witness:
  "my_bot_take_turn combo_view
     = PlayComboAction [cat ''TacoCat'', cat ''TacoCat'', cat ''TacoCat''] (Some ''p3'')
   \<and> snd (aaron_take_turn (aaron_init\<lparr>a_turn_count := 1\<rparr>) combo_view)
     = PlayComboAction [cat ''TacoCat'', cat ''TacoCat'', cat ''TacoCat''] (Some ''p3'')
   \<and> snd (aaron_take_turn aaron_init combo_view) = DrawCardAction"
proof -
  have others: "other_players combo_view \<noteq> []" by simp
  have three: "3 \<le> length (of_kind ''TacoCat'' (my_hand combo_view))"
    by (simp add: taco_only_triple)
  have gates: "get_cards_of_type combo_view STF = []" "my_turns_remaining combo_view \<le> 1"
    by (simp_all add: get_cards_of_type_def triple_pair_hand_def card_consts)
  have holder: "\<exists>p \<in> set (other_players combo_view). card_count_of combo_view p > 0"
    by simp
  have pm: "py_max (card_count_of combo_view) (other_players combo_view) = Some ''p3''"
    by (simp add: py_max_def)
  have ct: "aaron_combo_target combo_view = Some ''p3''"
    by (simp add: aaron_combo_target_def aaron_choose_attack_target_def
        aaron_find_strategic_bot_id_def STRATEGIC_BOT_PREFIX_def py_max_def)
  have st: "a_turn_count (aaron_init\<lparr>a_turn_count := 1\<rparr>) \<noteq> 0"
    "\<not> a_first_ek_seen_from_other (aaron_init\<lparr>a_turn_count := 1\<rparr>)"
    "a_turn_count aaron_init = 0"
    by (simp_all add: aaron_init_def)
  have only: "\<forall>t. 3 \<le> length (of_kind t (my_hand combo_view)) \<longrightarrow> t = ''TacoCat''"
    by (simp add: taco_only_triple)
  have cards: "take 3 (of_kind ''TacoCat'' (my_hand combo_view))
      = [cat ''TacoCat'', cat ''TacoCat'', cat ''TacoCat'']"
    by (simp add: taco_only_triple)
  obtain Y where Y: "Y = ''TacoCat''"
    and mine: "my_bot_take_turn combo_view
      = PlayComboAction (take 3 (of_kind Y (my_hand combo_view)))
          (py_max (card_count_of combo_view) (other_players combo_view))"
    and later: "snd (aaron_take_turn (aaron_init\<lparr>a_turn_count := 1\<rparr>) combo_view)
      = PlayComboAction (take 3 (of_kind Y (my_hand combo_view))) (aaron_combo_target combo_view)"
    using combo_gate_when_reached [OF others three, of "aaron_init\<lparr>a_turn_count := 1\<rparr>"] only gates holder st
    by blast
  have first: "snd (aaron_take_turn aaron_init combo_view) = DrawCardAction"
    using combo_gate_when_reached [OF others three, of aaron_init] st by blast
  show ?thesis
    using mine later first by (simp only: Y cards pm ct simp_thms)
qed

text \<open>
  The claim as the spec words it fails: with three cards of a kind, a peek card and living
  opponents, \<open>take_turn\<close> of \<open>my_bot.py\<close> plays the peek card; and on its first turn
  \<open>take_turn\<close> of \<open>aaron_bot.py\<close> draws.
\<close>

theorem combo_gate_not_first_counterexample:
  "other_players combo_stf_view \<noteq> []
   \<and> of_kind ''TacoCat'' (my_hand combo_stf_view)
       = [cat ''TacoCat'', cat ''TacoCat'', cat ''TacoCat'']
   \<and> my_bot_take_turn combo_stf_view = PlayCardAction stf_card None
   \<and> other_players combo_view \<noteq> []
   \<and> of_kind ''TacoCat'' (my_hand combo_view)
       = [cat ''TacoCat'', cat ''TacoCat'', cat ''TacoCat'']
   \<and> snd (aaron_take_turn aaron_init combo_view) = DrawCardAction"
proof -
  have stf: "get_cards_of_type combo_stf_view ''SeeTheFutureCard'' = [stf_card]"
    by (simp add: get_cards_of_type_def combo_stf_view_def triple_pair_hand_def card_consts)
  have pile: "draw_pile_count combo_stf_view = 20" "other_players combo_stf_view \<noteq> []"
    by (simp_all add: combo_stf_view_def sample_view_def)
  have hand: "of_kind ''TacoCat'' (my_hand combo_stf_view)
      = [cat ''TacoCat'', cat ''TacoCat'', cat ''TacoCat'']"
    by (simp add: combo_stf_view_def of_kind_def eligible_def triple_pair_hand_def)
  have mine: "my_bot_take_turn combo_stf_view = PlayCardAction stf_card None"
    by (simp add: my_bot_take_turn_def Let_def stf pile)
  have first: "snd (aaron_take_turn aaron_init combo_view) = DrawCardAction"
    by (rule aaron_first_turn_draws) (simp add: aaron_init_def)
  show ?thesis using pile hand mine first by (simp add: taco_only_triple)
qed

end
